theory Spec2Isabelle
  imports
    Main
    "HOL-Library.Sublist"
    "HOL-Library.AList"
    "HOL-Library.Char_ord"
    "HOL-Library.List_Lexorder"
begin

section \<open>The local agent: workspace boundary, tools, navigation and dispatch\<close>

text \<open>
  A shallow embedding of \<^verbatim>\<open>agent.py\<close> and of the two \<^verbatim>\<open>create_post\<close> handlers of the
  blog API scaffold. Conventions of the model:
  \<^item> a Python \<^verbatim>\<open>str\<close> is a \<^typ>\<open>string\<close>; one \<^typ>\<open>char\<close> stands for one code point
    (the code points below 256), so \<^term>\<open>length\<close> is Python's \<^verbatim>\<open>len\<close>;
  \<^item> a \<^verbatim>\<open>pathlib.Path\<close> is the list of its components; the host is POSIX
    (separator \<^verbatim>\<open>/\<close>, \<^verbatim>\<open>os.path.isabs\<close> means a leading \<^verbatim>\<open>/\<close>);
  \<^item> the file system holds directories and regular files only, no symbolic links, so
    the canonical form \<^verbatim>\<open>Path.resolve()\<close> gives is the lexical removal of \<^verbatim>\<open>.\<close> and
    \<^verbatim>\<open>..\<close>; it holds no entry whose name the host could not hold; permissions are not
    modelled;
  \<^item> an exception is a value of type \<open>error\<close>; a function that may raise returns
    \<open>error + 'a\<close>, with \<open>Inl\<close> the exception.
\<close>

subsection \<open>Python strings\<close>

abbreviation LF :: char where "LF \<equiv> CHR 0x0A"
abbreviation CR :: char where "CR \<equiv> CHR 0x0D"
abbreviation BACKSLASH :: char where "BACKSLASH \<equiv> CHR 0x5C"
abbreviation QUOTE :: char where "QUOTE \<equiv> CHR 0x27"
abbreviation DQUOTE :: char where "DQUOTE \<equiv> CHR 0x22"

text \<open>\<^verbatim>\<open>str.isspace\<close> on one character: TAB..CR, FS..US, space, NEL and NBSP.\<close>

definition py_isspace :: "char \<Rightarrow> bool" where
  "py_isspace c =
     (let n = (of_char c :: nat)
      in (9 \<le> n \<and> n \<le> 13) \<or> (28 \<le> n \<and> n \<le> 32) \<or> n = 133 \<or> n = 160)"

definition lstrip :: "string \<Rightarrow> string" where
  "lstrip s = dropWhile py_isspace s"

definition rstrip :: "string \<Rightarrow> string" where
  "rstrip s = rev (dropWhile py_isspace (rev s))"

text \<open>\<^verbatim>\<open>s.strip()\<close>\<close>

definition strip :: "string \<Rightarrow> string" where
  "strip s = rstrip (lstrip s)"

text \<open>\<^verbatim>\<open>s.replace("\\", "/")\<close>\<close>

definition replace_backslash :: "string \<Rightarrow> string" where
  "replace_backslash s = map (\<lambda>c. if c = BACKSLASH then CHR ''/'' else c) s"

text \<open>\<^verbatim>\<open>s.lstrip("/")\<close>\<close>

definition lstrip_slash :: "string \<Rightarrow> string" where
  "lstrip_slash s = dropWhile (\<lambda>c. c = CHR ''/'') s"

text \<open>\<^verbatim>\<open>s.startswith(p)\<close>\<close>

abbreviation startswith :: "string \<Rightarrow> string \<Rightarrow> bool" where
  "startswith s p \<equiv> prefix p s"

text \<open>\<^verbatim>\<open>str.lower\<close>: the letters A..Z and the upper-case letters of Latin-1.\<close>

definition lower_char :: "char \<Rightarrow> char" where
  "lower_char c =
     (let n = (of_char c :: nat)
      in if (65 \<le> n \<and> n \<le> 90) \<or> (192 \<le> n \<and> n \<le> 222 \<and> n \<noteq> 215)
         then char_of (n + 32) else c)"

definition lower :: "string \<Rightarrow> string" where
  "lower s = map lower_char s"

text \<open>\<^verbatim>\<open>sep.join(xs)\<close>\<close>

fun join :: "string \<Rightarrow> string list \<Rightarrow> string" where
  "join sep [] = []"
| "join sep [x] = x"
| "join sep (x # y # ys) = x @ sep @ join sep (y # ys)"

text \<open>\<^verbatim>\<open>s.split(maxsplit=1)\<close>: the first word, and the rest of the line after the
  white space that follows it, when there is a rest.\<close>

definition split_maxsplit1 :: "string \<Rightarrow> string list" where
  "split_maxsplit1 s =
     (let s1 = dropWhile py_isspace s;
          word = takeWhile (\<lambda>c. \<not> py_isspace c) s1;
          rest = dropWhile py_isspace (dropWhile (\<lambda>c. \<not> py_isspace c) s1)
      in if s1 = [] then [] else if rest = [] then [word] else [word, rest])"

text \<open>\<^verbatim>\<open>str(n)\<close> for a length and for an exit status.\<close>

definition digit_char :: "nat \<Rightarrow> char" where
  "digit_char d = char_of (48 + d)"

fun str_nat :: "nat \<Rightarrow> string" where
  "str_nat n = (if n < 10 then [digit_char n] else str_nat (n div 10) @ [digit_char (n mod 10)])"

declare str_nat.simps [simp del]

definition str_int :: "int \<Rightarrow> string" where
  "str_int i = (if i < 0 then CHR ''-'' # str_nat (nat (- i)) else str_nat (nat i))"

subsection \<open>Values and exceptions\<close>

text \<open>
  What \<^verbatim>\<open>json.loads\<close> can hand to a tool as an argument value. \<open>PStrSurrogate\<close> is a
  \<^verbatim>\<open>str\<close> that holds a lone surrogate which no codec of the host encodes (JSON text
  such as \<^verbatim>\<open>"\ud800"\<close> gives one): the model knows of it only that it is a non-empty
  \<^verbatim>\<open>str\<close> and that encoding it fails. \<open>POther t b\<close> is any other object (a float, a
  list, a dict), known by its \<^verbatim>\<open>str()\<close> text \<open>t\<close> and its truth value \<open>b\<close>.
\<close>

datatype pyval = PNone | PBool bool | PInt int | PStr string | PStrSurrogate | POther string bool

fun truthy :: "pyval \<Rightarrow> bool" where
  "truthy PNone = False"
| "truthy (PBool b) = b"
| "truthy (PInt i) = (i \<noteq> 0)"
| "truthy (PStr s) = (s \<noteq> [])"
| "truthy PStrSurrogate = True"
| "truthy (POther t b) = b"

text \<open>\<^verbatim>\<open>str(x)\<close> inside an f-string. The text of a \<open>PStrSurrogate\<close> is outside
  \<^typ>\<open>string\<close>; no result of the program shows it, since every operation that meets
  one raises first.\<close>

fun py_str :: "pyval \<Rightarrow> string" where
  "py_str PNone = ''None''"
| "py_str (PBool b) = (if b then ''True'' else ''False'')"
| "py_str (PInt i) = str_int i"
| "py_str (PStr s) = s"
| "py_str PStrSurrogate = []"
| "py_str (POther t b) = t"

text \<open>
  The exceptions of the program, each with the text \<^verbatim>\<open>str(e)\<close> gives. In Python
  \<^verbatim>\<open>FileNotFoundError\<close> is an \<^verbatim>\<open>OSError\<close>, and \<^verbatim>\<open>JSONDecodeError\<close> and
  \<^verbatim>\<open>UnicodeEncodeError\<close> are \<^verbatim>\<open>ValueError\<close>s; they are kept apart here because the
  program and \<^verbatim>\<open>pathlib\<close> catch them apart. All of them are \<^verbatim>\<open>Exception\<close>s. The
  texts of the exceptions the interpreter raises are representative.
\<close>

datatype error =
    ValueError string
  | JSONDecodeError string
  | UnicodeEncodeError string
  | RecursionError string
  | TypeError string
  | AttributeError string
  | OSError string
  | FileNotFoundError string
  | ClientError string

fun error_str :: "error \<Rightarrow> string" where
  "error_str (ValueError m) = m"
| "error_str (JSONDecodeError m) = m"
| "error_str (UnicodeEncodeError m) = m"
| "error_str (RecursionError m) = m"
| "error_str (TypeError m) = m"
| "error_str (AttributeError m) = m"
| "error_str (OSError m) = m"
| "error_str (FileNotFoundError m) = m"
| "error_str (ClientError m) = m"

fun is_FileNotFoundError :: "error \<Rightarrow> bool" where
  "is_FileNotFoundError (FileNotFoundError m) = True"
| "is_FileNotFoundError x = False"

subsection \<open>Paths\<close>

type_synonym path = "string list"

text \<open>Splitting a path string at \<^verbatim>\<open>/\<close>.\<close>

fun split_sep :: "string \<Rightarrow> string list" where
  "split_sep [] = [[]]"
| "split_sep (c # cs) =
     (if c = CHR ''/'' then [] # split_sep cs
      else (case split_sep cs of [] \<Rightarrow> [[c]] | h # t \<Rightarrow> (c # h) # t))"

text \<open>The components \<^verbatim>\<open>pathlib\<close> keeps of a path string: empty components and \<^verbatim>\<open>.\<close> go.\<close>

definition parts :: "string \<Rightarrow> path" where
  "parts s = filter (\<lambda>c. c \<noteq> [] \<and> c \<noteq> ''.'') (split_sep s)"

text \<open>The canonical form of an absolute path: \<^verbatim>\<open>..\<close> removes the component before it
  (and nothing at the root).\<close>

definition resolve_step :: "path \<Rightarrow> string \<Rightarrow> path" where
  "resolve_step acc c =
     (if c = [] \<or> c = ''.'' then acc else if c = ''..'' then butlast acc else acc @ [c])"

definition resolve :: "path \<Rightarrow> path" where
  "resolve p = foldl resolve_step [] p"

text \<open>
  \<^verbatim>\<open>(base / rel).resolve()\<close>, where \<open>base\<close> is a directory the program holds (the
  workspace, the current absolute directory, or the root for an absolute \<open>rel\<close>) and
  \<open>rel\<close> comes from outside. \<^verbatim>\<open>os.path.realpath\<close> looks every component up on its
  way; a look-up that fails with an \<^verbatim>\<open>OSError\<close> (a missing entry, an over-long name) is
  passed over, but a component with a NUL in it makes the look-up raise \<^verbatim>\<open>ValueError\<close>,
  also when a later \<^verbatim>\<open>..\<close> would remove that component.
\<close>

definition resolve_joined :: "path \<Rightarrow> path \<Rightarrow> error + path" where
  "resolve_joined base rel =
     (if list_ex (\<lambda>c. CHR 0x00 \<in> set c) rel then Inl (ValueError ''embedded null byte'')
      else Inr (resolve (base @ rel)))"

text \<open>\<^verbatim>\<open>str(p)\<close> of an absolute path, and of a relative one (\<^verbatim>\<open>as_posix\<close> is the same).\<close>

definition path_str :: "path \<Rightarrow> string" where
  "path_str p = (if p = [] then ''/'' else concat (map (\<lambda>c. CHR ''/'' # c) p))"

definition rel_str :: "path \<Rightarrow> string" where
  "rel_str r = (if r = [] then ''.'' else join ''/'' r)"

text \<open>\<^verbatim>\<open>p.relative_to(base)\<close> compares component by component.\<close>

definition relative_to :: "path \<Rightarrow> path \<Rightarrow> error + path" where
  "relative_to p base =
     (if prefix base p then Inr (drop (length base) p)
      else Inl (ValueError (path_str p @ '' is not in the subpath of '' @ path_str base)))"

definition isabs :: "string \<Rightarrow> bool" where
  "isabs s = startswith s ''/''"

text \<open>The number of bytes of the UTF-8 encoding of a string of code points below 256.\<close>

definition byte_length :: "string \<Rightarrow> nat" where
  "byte_length s = sum_list (map (\<lambda>c. if (of_char c :: nat) < 128 then 1 else 2) s)"

subsection \<open>The file system, the outside world and the program state\<close>

text \<open>
  A node is a directory or a regular file; \<open>TextFile s\<close> holds the UTF-8 encoding of
  \<open>s\<close>, \<open>BinaryFile\<close> holds bytes that are not valid UTF-8. The file system maps the
  absolute paths that exist to their nodes.
\<close>

datatype node = Directory | TextFile string | BinaryFile

type_synonym filesystem = "(path \<times> node) list"

definition path_exists :: "filesystem \<Rightarrow> path \<Rightarrow> bool" where
  "path_exists fs p = (map_of fs p \<noteq> None)"

definition is_dir :: "filesystem \<Rightarrow> path \<Rightarrow> bool" where
  "is_dir fs p = (map_of fs p = Some Directory)"

definition is_file :: "filesystem \<Rightarrow> path \<Rightarrow> bool" where
  "is_file fs p =
     (case map_of fs p of None \<Rightarrow> False | Some Directory \<Rightarrow> False | Some _ \<Rightarrow> True)"

text \<open>\<^verbatim>\<open>p.iterdir()\<close>: the entries directly below \<open>p\<close>.\<close>

definition iterdir :: "filesystem \<Rightarrow> path \<Rightarrow> path list" where
  "iterdir fs p =
     map (\<lambda>n. p @ [n]) (remdups (map last (filter (\<lambda>q. q \<noteq> [] \<and> butlast q = p) (map fst fs))))"

text \<open>What \<^verbatim>\<open>subprocess.run\<close> returns, and the messages exchanged with the hosted model.\<close>

record completed =
  stdout :: string
  stderr :: string
  returncode :: int

record tool_call =
  call_id :: string
  call_type :: string
  call_name :: string
  call_arguments :: string

datatype message =
    SystemMessage string
  | UserMessage string
  | AssistantMessage string "string option" "tool_call list"
  | ToolMessage string string string

record response =
  msg_role :: string
  msg_content :: "string option"
  msg_tool_calls :: "tool_call list"

text \<open>The value \<^verbatim>\<open>json.loads\<close> returns: a dict of argument values, or anything else.\<close>

datatype parsed = Mapping "(string \<times> pyval) list" | NotMapping

text \<open>
  The parts of the outside world the program calls, as parameters:
  \<^item> \<open>script\<close>: the absolute location \<^verbatim>\<open>__file__\<close> of \<^verbatim>\<open>agent.py\<close>, as the interpreter
    loaded it (so without a NUL);
  \<^item> \<open>SYSTEM_PROMPT\<close>: the fixed policy text sent first in every turn;
  \<^item> \<open>NAME_MAX\<close>, \<open>PATH_MAX\<close>: the host's limits on the bytes of one path component
    and of a whole path with its final NUL (255 and 4096 on Linux);
  \<^item> \<open>json_loads\<close>: \<^verbatim>\<open>json.loads\<close>; it raises \<^verbatim>\<open>JSONDecodeError\<close> on text that is not
    JSON, and other exceptions on some texts (\<^verbatim>\<open>RecursionError\<close> on nesting too deep,
    \<^verbatim>\<open>ValueError\<close> on an integer of too many digits);
  \<^item> \<open>subprocess_run\<close>: the shell, given the command, the working directory and the file
    system; it raises, times out (\<open>Inr None\<close>) or completes, and leaves a file system;
  \<^item> \<open>chat_create\<close>: the hosted model, given the requests sent so far and the messages
    of this request; it raises or returns \<^verbatim>\<open>response.choices[0].message\<close>.
\<close>

record env =
  script :: string
  SYSTEM_PROMPT :: string
  NAME_MAX :: nat
  PATH_MAX :: nat
  json_loads :: "string \<Rightarrow> error + parsed"
  subprocess_run :: "pyval \<Rightarrow> path \<Rightarrow> filesystem \<Rightarrow> (error + completed option) \<times> filesystem"
  chat_create :: "message list list \<Rightarrow> message list \<Rightarrow> error + response"

text \<open>The state: the file system, the global \<^verbatim>\<open>CURRENT_DIR\<close> (relative to the
  workspace, \<open>[]\<close> for \<^verbatim>\<open>Path(".")\<close>), and the requests sent to the hosted model.\<close>

record world =
  files :: filesystem
  CURRENT_DIR :: path
  requests :: "message list list"

subsection \<open>System calls on a path\<close>

text \<open>
  The host walks a path component by component and refuses a name it cannot hold with
  \<^verbatim>\<open>ENAMETOOLONG\<close>: a path of \<open>PATH_MAX\<close> bytes or more at once, and a component of
  more than \<open>NAME_MAX\<close> bytes when the walk reaches it, that is when the part of the
  path before the first such component is a directory (a missing directory before it
  ends the walk earlier, as a missing path).
\<close>

definition name_too_long :: "env \<Rightarrow> filesystem \<Rightarrow> path \<Rightarrow> bool" where
  "name_too_long e fs p =
     (PATH_MAX e \<le> byte_length (path_str p)
      \<or> (list_ex (\<lambda>c. NAME_MAX e < byte_length c) p
         \<and> (let d = takeWhile (\<lambda>c. byte_length c \<le> NAME_MAX e) p
            in d = [] \<or> is_dir fs d)))"

definition errno_text :: "string \<Rightarrow> string \<Rightarrow> path \<Rightarrow> string" where
  "errno_text n m p = ''[Errno '' @ n @ ''] '' @ m @ '': '' @ [QUOTE] @ path_str p @ [QUOTE]"

definition ENAMETOOLONG :: "path \<Rightarrow> error" where
  "ENAMETOOLONG p = OSError (errno_text ''36'' ''File name too long'' p)"

definition EEXIST :: "path \<Rightarrow> error" where
  "EEXIST p = OSError (errno_text ''17'' ''File exists'' p)"

definition ENOTDIR :: "path \<Rightarrow> error" where
  "ENOTDIR p = OSError (errno_text ''20'' ''Not a directory'' p)"

definition EISDIR :: "path \<Rightarrow> error" where
  "EISDIR p = OSError (errno_text ''21'' ''Is a directory'' p)"

definition ENOENT :: "path \<Rightarrow> error" where
  "ENOENT p = FileNotFoundError (errno_text ''2'' ''No such file or directory'' p)"

text \<open>\<^verbatim>\<open>os.stat(p)\<close>: the node found, \<open>None\<close> for the errors \<^verbatim>\<open>pathlib\<close> takes as a
  missing path (\<^verbatim>\<open>ENOENT\<close>, \<^verbatim>\<open>ENOTDIR\<close>), or the error it lets through.\<close>

definition os_stat :: "env \<Rightarrow> filesystem \<Rightarrow> path \<Rightarrow> error + node option" where
  "os_stat e fs p =
     (case map_of fs p of
        Some n \<Rightarrow> Inr (Some n)
      | None \<Rightarrow> if name_too_long e fs p then Inl (ENAMETOOLONG p) else Inr None)"

text \<open>\<^verbatim>\<open>p.exists()\<close>, \<^verbatim>\<open>p.is_dir()\<close>, \<^verbatim>\<open>p.is_file()\<close>\<close>

definition Path_exists :: "env \<Rightarrow> filesystem \<Rightarrow> path \<Rightarrow> error + bool" where
  "Path_exists e fs p =
     (case os_stat e fs p of Inl x \<Rightarrow> Inl x | Inr n \<Rightarrow> Inr (n \<noteq> None))"

definition Path_is_dir :: "env \<Rightarrow> filesystem \<Rightarrow> path \<Rightarrow> error + bool" where
  "Path_is_dir e fs p =
     (case os_stat e fs p of Inl x \<Rightarrow> Inl x | Inr n \<Rightarrow> Inr (n = Some Directory))"

definition Path_is_file :: "env \<Rightarrow> filesystem \<Rightarrow> path \<Rightarrow> error + bool" where
  "Path_is_file e fs p =
     (case os_stat e fs p of
        Inl x \<Rightarrow> Inl x
      | Inr n \<Rightarrow> Inr (n \<noteq> None \<and> n \<noteq> Some Directory))"

text \<open>\<^verbatim>\<open>os.mkdir(p)\<close>\<close>

definition os_mkdir :: "env \<Rightarrow> filesystem \<Rightarrow> path \<Rightarrow> error + filesystem" where
  "os_mkdir e fs p =
     (case map_of fs p of
        Some n \<Rightarrow> Inl (EEXIST p)
      | None \<Rightarrow>
          if name_too_long e fs p then Inl (ENAMETOOLONG p)
          else (case map_of fs (butlast p) of
                  Some Directory \<Rightarrow> Inr (AList.update p Directory fs)
                | Some _ \<Rightarrow> Inl (ENOTDIR p)
                | None \<Rightarrow> Inl (ENOENT p)))"

text \<open>\<^verbatim>\<open>p.mkdir(exist_ok=True)\<close>: a missing parent is an error; any other error of
  \<^verbatim>\<open>os.mkdir\<close> is forgiven when \<open>p\<close> is a directory.\<close>

definition mkdir_exist_ok :: "env \<Rightarrow> filesystem \<Rightarrow> path \<Rightarrow> error + filesystem" where
  "mkdir_exist_ok e fs p =
     (case os_mkdir e fs p of
        Inr fs1 \<Rightarrow> Inr fs1
      | Inl x \<Rightarrow>
          if is_FileNotFoundError x then Inl x
          else (case Path_is_dir e fs p of
                  Inl y \<Rightarrow> Inl y
                | Inr d \<Rightarrow> if d then Inr fs else Inl x))"

text \<open>\<^verbatim>\<open>p.mkdir(parents=True, exist_ok=True)\<close>, as \<^verbatim>\<open>pathlib\<close> does it: try \<open>p\<close>; when
  its parent is missing make the parent in the same way and try \<open>p\<close> again. The
  directories made stay when a later step raises.\<close>

function mkdir_parents :: "env \<Rightarrow> filesystem \<Rightarrow> path \<Rightarrow> error option \<times> filesystem" where
  "mkdir_parents e fs p =
     (case os_mkdir e fs p of
        Inr fs1 \<Rightarrow> (None, fs1)
      | Inl x \<Rightarrow>
          if is_FileNotFoundError x then
            (if p = [] then (Some x, fs)
             else (case mkdir_parents e fs (butlast p) of
                     (Some y, fs1) \<Rightarrow> (Some y, fs1)
                   | (None, fs1) \<Rightarrow>
                       (case mkdir_exist_ok e fs1 p of
                          Inl y \<Rightarrow> (Some y, fs1)
                        | Inr fs2 \<Rightarrow> (None, fs2))))
          else (case Path_is_dir e fs p of
                  Inl y \<Rightarrow> (Some y, fs)
                | Inr d \<Rightarrow> if d then (None, fs) else (Some x, fs)))"
  by pat_completeness auto

termination
  by (relation "measure (\<lambda>(e, fs, p). length p)") auto

declare mkdir_parents.simps [simp del]

text \<open>\<^verbatim>\<open>p.open(mode, encoding="utf-8")\<close> with mode \<^verbatim>\<open>"w"\<close> or \<^verbatim>\<open>"a"\<close>: \<^verbatim>\<open>"w"\<close>
  empties the file, \<^verbatim>\<open>"a"\<close> keeps an existing one, both create a missing one in an
  existing directory.\<close>

definition open_for_write :: "env \<Rightarrow> filesystem \<Rightarrow> path \<Rightarrow> bool \<Rightarrow> error + filesystem" where
  "open_for_write e fs p append_flag =
     (case map_of fs p of
        Some Directory \<Rightarrow> Inl (EISDIR p)
      | Some _ \<Rightarrow> if append_flag then Inr fs else Inr (AList.update p (TextFile []) fs)
      | None \<Rightarrow>
          if name_too_long e fs p then Inl (ENAMETOOLONG p)
          else (case map_of fs (butlast p) of
                  Some Directory \<Rightarrow> Inr (AList.update p (TextFile []) fs)
                | Some _ \<Rightarrow> Inl (ENOTDIR p)
                | None \<Rightarrow> Inl (ENOENT p)))"

text \<open>\<^verbatim>\<open>f.write(s)\<close> on the open file: the text goes to the end. Bytes that are not
  UTF-8 stay so when text is added after them.\<close>

definition write_text :: "filesystem \<Rightarrow> path \<Rightarrow> string \<Rightarrow> filesystem" where
  "write_text fs p s =
     (case map_of fs p of
        Some (TextFile old) \<Rightarrow> AList.update p (TextFile (old @ s)) fs
      | _ \<Rightarrow> fs)"

text \<open>Reading in text mode with the default \<^verbatim>\<open>newline=None\<close>, as \<^verbatim>\<open>Path.read_text\<close>
  does: CR LF and a lone CR arrive as LF.\<close>

fun universal_newlines :: "string \<Rightarrow> string" where
  "universal_newlines [] = []"
| "universal_newlines [c] = [if c = CR then LF else c]"
| "universal_newlines (c # d # cs) =
     (if c = CR \<and> d = LF then LF # universal_newlines cs
      else if c = CR then LF # universal_newlines (d # cs)
      else c # universal_newlines (d # cs))"

subsection \<open>Workspace and path resolution\<close>

definition BASE_DIR :: "env \<Rightarrow> path" where
  "BASE_DIR e = butlast (resolve (parts (script e)))"

definition WORKSPACE :: "env \<Rightarrow> path" where
  "WORKSPACE e = BASE_DIR e @ [''agent_workspace'']"

text \<open>\<^verbatim>\<open>(WORKSPACE / CURRENT_DIR).resolve()\<close>. Neither part holds a NUL: the workspace
  was resolved when the program was loaded, and \<^verbatim>\<open>CURRENT_DIR\<close> is only ever assigned
  from a resolved path.\<close>

definition get_current_abs_dir :: "env \<Rightarrow> world \<Rightarrow> path" where
  "get_current_abs_dir e w = resolve (WORKSPACE e @ CURRENT_DIR w)"

definition safe_path :: "env \<Rightarrow> world \<Rightarrow> pyval \<Rightarrow> error + path" where
  "safe_path e w arg =
     (case (case arg of
              PNone \<Rightarrow> Inr ''.''
            | PStr s \<Rightarrow> Inr s
            | PStrSurrogate \<Rightarrow>
                Inl (UnicodeEncodeError ''surrogates not allowed'')
            | _ \<Rightarrow> Inl (AttributeError ''object has no attribute replace''))
      of Inl x \<Rightarrow> Inl x
       | Inr relative_path0 \<Rightarrow>
          (let relative_path1 = strip (replace_backslash relative_path0);
               relative_path2 = (if relative_path1 = [] then ''.'' else relative_path1);
               relative_path = (if startswith relative_path2 ''/''
                                then lstrip_slash relative_path2 else relative_path2);
               base = (if startswith relative_path2 ''/''
                       then WORKSPACE e else get_current_abs_dir e w)
           in case resolve_joined base (parts relative_path) of
                Inl x \<Rightarrow> Inl x
              | Inr target \<Rightarrow>
                  if \<not> startswith (path_str target) (path_str (WORKSPACE e))
                  then Inl (ValueError (''Refusing to access path outside workspace: ''
                                        @ path_str target))
                  else Inr target))"

subsection \<open>Tool implementations\<close>

text \<open>In \<open>tool_list_directory\<close> the entries \<^verbatim>\<open>iterdir\<close> yields exist, so \<^verbatim>\<open>is_dir()\<close>
  finds each of them.\<close>

definition tool_list_directory :: "env \<Rightarrow> world \<Rightarrow> pyval \<Rightarrow> error + string" where
  "tool_list_directory e w path =
     (case safe_path e w path of
        Inl x \<Rightarrow> Inl x
      | Inr p \<Rightarrow>
          (case Path_exists e (files w) p of
             Inl x \<Rightarrow> Inl x
           | Inr ex \<Rightarrow>
               if \<not> ex then
                 (case relative_to p (WORKSPACE e) of
                    Inl x \<Rightarrow> Inl x
                  | Inr rel \<Rightarrow> Inr (''Directory does not exist: '' @ rel_str rel))
               else
                 (case Path_is_dir e (files w) p of
                    Inl x \<Rightarrow> Inl x
                  | Inr d \<Rightarrow>
                      if \<not> d then
                        (case relative_to p (WORKSPACE e) of
                           Inl x \<Rightarrow> Inl x
                         | Inr rel \<Rightarrow> Inr (''Path is not a directory: '' @ rel_str rel))
                      else
                        (let entries =
                               map (\<lambda>item. (if is_dir (files w) item then ''/ '' else ''  '')
                                           @ last item)
                                 (sort (iterdir (files w) p));
                             listing = (if join [LF] entries = [] then ''(empty directory)''
                                        else join [LF] entries)
                         in case relative_to p (WORKSPACE e) of
                              Inl x \<Rightarrow> Inl x
                            | Inr rel \<Rightarrow>
                                Inr (''Listing for '' @ rel_str rel @ '':'' @ [LF] @ listing)))))"

definition tool_create_directory :: "env \<Rightarrow> world \<Rightarrow> pyval \<Rightarrow> (error + string) \<times> world" where
  "tool_create_directory e w path =
     (case safe_path e w path of
        Inl x \<Rightarrow> (Inl x, w)
      | Inr p \<Rightarrow>
          (case mkdir_parents e (files w) p of
             (Some x, fs1) \<Rightarrow> (Inl x, w\<lparr>files := fs1\<rparr>)
           | (None, fs1) \<Rightarrow>
               (case relative_to p (WORKSPACE e) of
                  Inl x \<Rightarrow> (Inl x, w\<lparr>files := fs1\<rparr>)
                | Inr rel \<Rightarrow> (Inr (''Created directory: '' @ rel_str rel), w\<lparr>files := fs1\<rparr>))))"

text \<open>In \<open>tool_write_file\<close> the file is open, so created or emptied, when \<^verbatim>\<open>f.write\<close>
  refuses a content that is not a \<^verbatim>\<open>str\<close> or that UTF-8 cannot encode.\<close>

definition tool_write_file ::
  "env \<Rightarrow> world \<Rightarrow> pyval \<Rightarrow> pyval \<Rightarrow> pyval \<Rightarrow> (error + string) \<times> world" where
  "tool_write_file e w path content append_flag =
     (case safe_path e w path of
        Inl x \<Rightarrow> (Inl x, w)
      | Inr p \<Rightarrow>
          (case mkdir_parents e (files w) (butlast p) of
             (Some x, fs1) \<Rightarrow> (Inl x, w\<lparr>files := fs1\<rparr>)
           | (None, fs1) \<Rightarrow>
               (case open_for_write e fs1 p (truthy append_flag) of
                  Inl x \<Rightarrow> (Inl x, w\<lparr>files := fs1\<rparr>)
                | Inr fs2 \<Rightarrow>
                    (case content of
                       PStr s \<Rightarrow>
                         (case relative_to p (WORKSPACE e) of
                            Inl x \<Rightarrow> (Inl x, w\<lparr>files := write_text fs2 p s\<rparr>)
                          | Inr rel \<Rightarrow>
                              (Inr ((if truthy append_flag then ''Appended to'' else ''Wrote file'')
                                    @ '': '' @ rel_str rel @ '' (length=''
                                    @ str_nat (length s) @ '' characters)''),
                               w\<lparr>files := write_text fs2 p s\<rparr>))
                     | PStrSurrogate \<Rightarrow>
                         (Inl (UnicodeEncodeError ''surrogates not allowed''), w\<lparr>files := fs2\<rparr>)
                     | _ \<Rightarrow> (Inl (TypeError ''write() argument must be str''),
                             w\<lparr>files := fs2\<rparr>)))))"

definition max_len :: nat where
  "max_len = 4000"

definition tool_read_file :: "env \<Rightarrow> world \<Rightarrow> pyval \<Rightarrow> error + string" where
  "tool_read_file e w path =
     (case safe_path e w path of
        Inl x \<Rightarrow> Inl x
      | Inr p \<Rightarrow>
          (case Path_exists e (files w) p of
             Inl x \<Rightarrow> Inl x
           | Inr ex \<Rightarrow>
               (case (if ex then Path_is_file e (files w) p else Inr False) of
                  Inl x \<Rightarrow> Inl x
                | Inr f \<Rightarrow>
                    if \<not> f then
                      (case relative_to p (WORKSPACE e) of
                         Inl x \<Rightarrow> Inl x
                       | Inr rel \<Rightarrow> Inr (''File does not exist: '' @ rel_str rel))
                    else
                      (case map_of (files w) p of
                         Some (TextFile s) \<Rightarrow>
                           (let text = universal_newlines s
                            in if length text > max_len then
                                 Inr (''File content (truncated to '' @ str_nat max_len
                                      @ '' characters):''
                                      @ [LF] @ take max_len text @ [LF] @ ''...[truncated]...'')
                               else
                                 (case relative_to p (WORKSPACE e) of
                                    Inl x \<Rightarrow> Inl x
                                  | Inr rel \<Rightarrow>
                                      Inr (''File content of '' @ rel_str rel @ '':'' @ [LF]
                                           @ text)))
                       | _ \<Rightarrow>
                           (case relative_to p (WORKSPACE e) of
                              Inl x \<Rightarrow> Inl x
                            | Inr rel \<Rightarrow>
                                Inr (''File is not valid UTF-8 text: '' @ rel_str rel))))))"

text \<open>\<^verbatim>\<open>subprocess.run\<close> encodes the command before it starts anything, so a command
  that cannot be encoded raises at once.\<close>

definition tool_run_command :: "env \<Rightarrow> world \<Rightarrow> pyval \<Rightarrow> (error + string) \<times> world" where
  "tool_run_command e w command =
     (let cwd = get_current_abs_dir e w
      in if command = PStrSurrogate
         then (Inl (UnicodeEncodeError ''surrogates not allowed''), w)
         else
          (case subprocess_run e command cwd (files w) of
             (Inl x, fs1) \<Rightarrow> (Inl x, w\<lparr>files := fs1\<rparr>)
           | (Inr None, fs1) \<Rightarrow>
               (case relative_to cwd (WORKSPACE e) of
                  Inl x \<Rightarrow> (Inl x, w\<lparr>files := fs1\<rparr>)
                | Inr rel \<Rightarrow>
                    (Inr (''Command timed out after 60 seconds in '' @ rel_str rel @ ''.''),
                     w\<lparr>files := fs1\<rparr>))
           | (Inr (Some result), fs1) \<Rightarrow>
               (let out = stdout result;
                    err = stderr result;
                    combined1 = (if out \<noteq> [] then ''[STDOUT]'' @ [LF] @ out else []);
                    combined2 = (if err \<noteq> [] then combined1 @ [LF] @ ''[STDERR]'' @ [LF] @ err
                                 else combined1);
                    combined3 = (if strip combined2 = [] then ''(no output)'' else combined2);
                    combined = (if length combined3 > 6000
                                then take 6000 combined3 @ [LF] @ ''...[truncated]...''
                                else combined3)
                in case relative_to cwd (WORKSPACE e) of
                     Inl x \<Rightarrow> (Inl x, w\<lparr>files := fs1\<rparr>)
                   | Inr rel_cwd \<Rightarrow>
                       (Inr (''Command (cwd='' @ rel_str rel_cwd @ ''): '' @ py_str command @ [LF]
                             @ ''Exit code: '' @ str_int (returncode result) @ [LF, LF] @ combined),
                        w\<lparr>files := fs1\<rparr>))))"

subsection \<open>Calling a tool with keyword arguments\<close>

text \<open>
  \<^verbatim>\<open>tool_func(**args)\<close>: the value must be a dict, every key must be a parameter of the
  function, and every parameter without a default must be given. \<open>bind_kwargs\<close>
  takes the parameters, the required ones and the parsed value.
\<close>

definition bind_kwargs ::
  "string list \<Rightarrow> string list \<Rightarrow> parsed \<Rightarrow> error + (string \<Rightarrow> pyval option)" where
  "bind_kwargs params required args =
     (case args of
        NotMapping \<Rightarrow> Inl (TypeError ''argument after ** must be a mapping'')
      | Mapping kvs \<Rightarrow>
          if list_ex (\<lambda>k. k \<notin> set params) (map fst kvs)
          then Inl (TypeError ''got an unexpected keyword argument'')
          else if list_ex (\<lambda>k. k \<notin> set (map fst kvs)) required
          then Inl (TypeError ''missing a required positional argument'')
          else Inr (map_of kvs))"

definition call_list_directory :: "env \<Rightarrow> world \<Rightarrow> parsed \<Rightarrow> (error + string) \<times> world" where
  "call_list_directory e w args =
     (case bind_kwargs [''path''] [] args of
        Inl x \<Rightarrow> (Inl x, w)
      | Inr kw \<Rightarrow>
          (tool_list_directory e w (case kw ''path'' of None \<Rightarrow> PStr ''.'' | Some v \<Rightarrow> v), w))"

definition call_create_directory :: "env \<Rightarrow> world \<Rightarrow> parsed \<Rightarrow> (error + string) \<times> world" where
  "call_create_directory e w args =
     (case bind_kwargs [''path''] [''path''] args of
        Inl x \<Rightarrow> (Inl x, w)
      | Inr kw \<Rightarrow> tool_create_directory e w (case kw ''path'' of None \<Rightarrow> PNone | Some v \<Rightarrow> v))"

definition call_write_file :: "env \<Rightarrow> world \<Rightarrow> parsed \<Rightarrow> (error + string) \<times> world" where
  "call_write_file e w args =
     (case bind_kwargs [''path'', ''content'', ''append''] [''path'', ''content''] args of
        Inl x \<Rightarrow> (Inl x, w)
      | Inr kw \<Rightarrow>
          tool_write_file e w
            (case kw ''path'' of None \<Rightarrow> PNone | Some v \<Rightarrow> v)
            (case kw ''content'' of None \<Rightarrow> PNone | Some v \<Rightarrow> v)
            (case kw ''append'' of None \<Rightarrow> PBool False | Some v \<Rightarrow> v))"

definition call_read_file :: "env \<Rightarrow> world \<Rightarrow> parsed \<Rightarrow> (error + string) \<times> world" where
  "call_read_file e w args =
     (case bind_kwargs [''path''] [''path''] args of
        Inl x \<Rightarrow> (Inl x, w)
      | Inr kw \<Rightarrow> (tool_read_file e w (case kw ''path'' of None \<Rightarrow> PNone | Some v \<Rightarrow> v), w))"

definition call_run_command :: "env \<Rightarrow> world \<Rightarrow> parsed \<Rightarrow> (error + string) \<times> world" where
  "call_run_command e w args =
     (case bind_kwargs [''command''] [''command''] args of
        Inl x \<Rightarrow> (Inl x, w)
      | Inr kw \<Rightarrow> tool_run_command e w (case kw ''command'' of None \<Rightarrow> PNone | Some v \<Rightarrow> v))"

definition TOOL_IMPLEMENTATIONS ::
  "string \<Rightarrow> (env \<Rightarrow> world \<Rightarrow> parsed \<Rightarrow> (error + string) \<times> world) option" where
  "TOOL_IMPLEMENTATIONS =
     map_of
       [(''list_directory'', call_list_directory),
        (''create_directory'', call_create_directory),
        (''write_file'', call_write_file),
        (''read_file'', call_read_file),
        (''run_command'', call_run_command)]"

subsection \<open>Directory navigation\<close>

definition root_message :: string where
  "root_message = ''Current directory: / (workspace root)''"

text \<open>The two steps of \<^verbatim>\<open>change_directory\<close> before its checks: the matching quotes
  around the argument go, and the candidate is the canonical form of an absolute
  argument, or of the argument joined to the current absolute directory. Nothing
  around the call in \<^verbatim>\<open>main\<close> catches what \<^verbatim>\<open>resolve\<close>, \<^verbatim>\<open>exists\<close>, \<^verbatim>\<open>is_dir\<close> or
  \<^verbatim>\<open>relative_to\<close> raise.\<close>

definition strip_quotes :: "string \<Rightarrow> string" where
  "strip_quotes new_path =
     (if length new_path \<ge> 2 \<and> hd new_path = last new_path
         \<and> (hd new_path = QUOTE \<or> hd new_path = DQUOTE)
      then strip (butlast (tl new_path)) else new_path)"

definition cd_candidate :: "env \<Rightarrow> world \<Rightarrow> string \<Rightarrow> error + path" where
  "cd_candidate e w new_path =
     (if isabs new_path then resolve_joined [] (parts new_path)
      else resolve_joined (get_current_abs_dir e w) (parts new_path))"

definition change_directory :: "env \<Rightarrow> world \<Rightarrow> string \<Rightarrow> (error + string) \<times> world" where
  "change_directory e w arg =
     (let new_path0 = strip arg
      in if new_path0 = [] then (Inr root_message, w\<lparr>CURRENT_DIR := []\<rparr>)
         else
           (case cd_candidate e w (strip_quotes new_path0) of
              Inl x \<Rightarrow> (Inl x, w)
            | Inr candidate \<Rightarrow>
                if candidate = WORKSPACE e then (Inr root_message, w\<lparr>CURRENT_DIR := []\<rparr>)
                else if \<not> startswith (path_str candidate) (path_str (WORKSPACE e))
                then (Inr (''Refusing to cd outside workspace root: '' @ path_str candidate), w)
                else
                  (case Path_exists e (files w) candidate of
                     Inl x \<Rightarrow> (Inl x, w)
                   | Inr ex \<Rightarrow>
                       if \<not> ex
                       then (case relative_to candidate (WORKSPACE e) of
                               Inr rel \<Rightarrow> (Inr (''Directory does not exist: '' @ rel_str rel), w)
                             | Inl x \<Rightarrow>
                                 (Inr (''Directory does not exist: '' @ path_str candidate), w))
                       else
                         (case Path_is_dir e (files w) candidate of
                            Inl x \<Rightarrow> (Inl x, w)
                          | Inr d \<Rightarrow>
                              if \<not> d
                              then (case relative_to candidate (WORKSPACE e) of
                                      Inr rel \<Rightarrow> (Inr (''Not a directory: '' @ rel_str rel), w)
                                    | Inl x \<Rightarrow>
                                        (Inr (''Not a directory: '' @ path_str candidate), w))
                              else (case relative_to candidate (WORKSPACE e) of
                                      Inl x \<Rightarrow> (Inl x, w)
                                    | Inr rel \<Rightarrow>
                                        (Inr (if rel_str rel = ''.'' then root_message
                                              else ''Current directory: /'' @ rel_str rel),
                                         w\<lparr>CURRENT_DIR := rel\<rparr>))))))"

definition format_current_dir_for_model :: "world \<Rightarrow> string" where
  "format_current_dir_for_model w =
     (if rel_str (CURRENT_DIR w) = ''.'' then ''/ (workspace root)''
      else CHR ''/'' # rel_str (CURRENT_DIR w))"

subsection \<open>The chat and tool loop\<close>

text \<open>The body of \<^verbatim>\<open>for tool_call in msg.tool_calls\<close> up to the value of
  \<^verbatim>\<open>tool_result\<close>: parse the arguments, look the tool up, call it. The handler
  around \<^verbatim>\<open>json.loads\<close> catches \<^verbatim>\<open>JSONDecodeError\<close> and nothing else; the one around
  the tool catches every \<^verbatim>\<open>Exception\<close>.\<close>

definition dispatch ::
  "env \<Rightarrow> world \<Rightarrow> string \<Rightarrow> string \<Rightarrow> (error + string) \<times> world" where
  "dispatch e w tool_name args_str =
     (case (if args_str \<noteq> [] then json_loads e args_str else Inr (Mapping [])) of
        Inl (JSONDecodeError m) \<Rightarrow>
          (Inr (''Error: could not parse arguments for tool '' @ [QUOTE] @ tool_name @ [QUOTE]
                @ '': '' @ m), w)
      | Inl x \<Rightarrow> (Inl x, w)
      | Inr args \<Rightarrow>
          (case TOOL_IMPLEMENTATIONS tool_name of
             None \<Rightarrow> (Inr (''Error: unknown tool '' @ [QUOTE] @ tool_name @ [QUOTE] @ ''.''), w)
           | Some tool_func \<Rightarrow>
               (case tool_func e w args of
                  (Inl x, w1) \<Rightarrow>
                    (Inr (''Error while running tool '' @ [QUOTE] @ tool_name @ [QUOTE] @ '': ''
                          @ error_str x), w1)
                | (Inr tool_result, w1) \<Rightarrow> (Inr tool_result, w1))))"

text \<open>The whole \<^verbatim>\<open>for\<close> loop: one tool message per call, in order, unless a dispatch
  raises, which ends the loop and the turn.\<close>

fun run_tool_calls ::
  "env \<Rightarrow> world \<Rightarrow> tool_call list \<Rightarrow> (error + message list) \<times> world" where
  "run_tool_calls e w [] = (Inr [], w)"
| "run_tool_calls e w (c # cs) =
     (case dispatch e w (call_name c) (call_arguments c) of
        (Inl x, w1) \<Rightarrow> (Inl x, w1)
      | (Inr tool_result, w1) \<Rightarrow>
          (case run_tool_calls e w1 cs of
             (Inl x, w2) \<Rightarrow> (Inl x, w2)
           | (Inr ms, w2) \<Rightarrow>
               (Inr (ToolMessage (call_id c) (call_name c) tool_result # ms), w2)))"

text \<open>The \<^verbatim>\<open>while True\<close> loop of \<^verbatim>\<open>run_agent_turn\<close>. It has no bound: \<open>None\<close> is a turn
  that never ends. An exception of the hosted model or of a dispatch leaves the turn.\<close>

partial_function (option) agent_loop ::
  "env \<Rightarrow> world \<Rightarrow> message list \<Rightarrow> ((error + string) \<times> world) option" where
  "agent_loop e w messages =
     (case chat_create e (requests w) messages of
        Inl x \<Rightarrow> Some (Inl x, w\<lparr>requests := requests w @ [messages]\<rparr>)
      | Inr msg \<Rightarrow>
          if msg_tool_calls msg \<noteq> [] then
            (case run_tool_calls e (w\<lparr>requests := requests w @ [messages]\<rparr>) (msg_tool_calls msg) of
               (Inl x, w1) \<Rightarrow> Some (Inl x, w1)
             | (Inr results, w1) \<Rightarrow>
                 agent_loop e w1
                   (messages
                    @ [AssistantMessage (msg_role msg) (msg_content msg) (msg_tool_calls msg)]
                    @ results))
          else
            Some (Inr (case msg_content msg of None \<Rightarrow> [] | Some c \<Rightarrow> c),
                  w\<lparr>requests := requests w @ [messages]\<rparr>))"

definition run_agent_turn ::
  "env \<Rightarrow> world \<Rightarrow> string \<Rightarrow> ((error + string) \<times> world) option" where
  "run_agent_turn e w user_input =
     agent_loop e w
       [SystemMessage (SYSTEM_PROMPT e),
        SystemMessage
          (''Current workspace directory (like your shell cwd) is: ''
           @ format_current_dir_for_model w
           @ ''. Interpret unqualified/relative paths and ''
           @ ''create new files/projects under this directory unless ''
           @ ''the user gives an explicit path from the workspace root.''),
        UserMessage user_input]"

subsection \<open>The command loop\<close>

text \<open>One pass of the \<^verbatim>\<open>while True\<close> loop of \<^verbatim>\<open>main\<close> on the line \<^verbatim>\<open>input\<close> returned:
  what is printed and whether the loop goes on, ends, or dies of an exception.\<close>

datatype cli = Continue "string list" | Break "string list" | Uncaught error

definition main_step :: "env \<Rightarrow> world \<Rightarrow> string \<Rightarrow> (cli \<times> world) option" where
  "main_step e w line =
     (let user_input = strip line
      in if user_input = [] then Some (Continue [], w)
         else if lower user_input = ''exit'' \<or> lower user_input = ''quit''
         then Some (Break [''Goodbye.''], w)
         else if startswith (lower user_input) ''cd'' then
           (let parts = split_maxsplit1 user_input;
                path_arg = (if length parts > 1 then parts ! 1 else [])
            in case change_directory e w path_arg of
                 (Inl x, w1) \<Rightarrow> Some (Uncaught x, w1)
               | (Inr result, w1) \<Rightarrow>
                   Some (Continue [[LF] @ ''Agent:'' @ [LF] @ result @ [LF]], w1))
         else
           (case run_agent_turn e w user_input of
              None \<Rightarrow> None
            | Some (Inl x, w1) \<Rightarrow>
                Some (Continue [''Agent: thinking...'', ''Agent error: '' @ error_str x], w1)
            | Some (Inr reply, w1) \<Rightarrow>
                Some (Continue [''Agent: thinking...'', [LF] @ ''Agent:'' @ [LF] @ reply @ [LF]],
                      w1)))"

text \<open>The state at start-up (lines 27 to 33) on the file system \<open>fs\<close> found:
  \<^verbatim>\<open>WORKSPACE.mkdir(exist_ok=True)\<close> creates the workspace below an existing
  \<^verbatim>\<open>BASE_DIR\<close> or finds it there as a directory, and \<^verbatim>\<open>CURRENT_DIR\<close> is \<^verbatim>\<open>Path(".")\<close>.\<close>

definition initial_world :: "env \<Rightarrow> filesystem \<Rightarrow> error + world" where
  "initial_world e fs =
     (case mkdir_exist_ok e fs (WORKSPACE e) of
        Inl x \<Rightarrow> Inl x
      | Inr fs1 \<Rightarrow> Inr \<lparr>files = fs1, CURRENT_DIR = [], requests = []\<rparr>)"

text \<open>The argument of a navigation line: \<^verbatim>\<open>parts[1] if len(parts) > 1 else ""\<close>.\<close>

definition path_arg_of :: "string \<Rightarrow> string" where
  "path_arg_of user_input =
     (if length (split_maxsplit1 user_input) > 1 then split_maxsplit1 user_input ! 1 else [])"

text \<open>The loop of \<^verbatim>\<open>main\<close> on the lines typed, up to the end of input: the state it ends
  in, or \<open>None\<close> when a turn never ends.\<close>

fun main_loop :: "env \<Rightarrow> world \<Rightarrow> string list \<Rightarrow> world option" where
  "main_loop e w [] = Some w"
| "main_loop e w (line # rest) =
     (case main_step e w line of
        None \<Rightarrow> None
      | Some (Continue out, w1) \<Rightarrow> main_loop e w1 rest
      | Some (Break out, w1) \<Rightarrow> Some w1
      | Some (Uncaught x, w1) \<Rightarrow> Some w1)"

text \<open>The invariant of \<^verbatim>\<open>CURRENT_DIR\<close>: the current absolute directory lies under the
  workspace, component by component.\<close>

definition under_workspace :: "env \<Rightarrow> world \<Rightarrow> bool" where
  "under_workspace e w = prefix (WORKSPACE e) (get_current_abs_dir e w)"

section \<open>The blog API scaffold: creating a post\<close>

text \<open>
  Modelled from the spec: the Post table, whose declaration (\<^verbatim>\<open>app/models/post.py\<close>) and
  database layer are not among the sources. A Post has a server-assigned identifier, a
  title and a content; the table is the list of its rows, and a new row gets an
  identifier above all those in the table.
\<close>

record post =
  post_id :: nat
  title :: string
  content :: string

record post_create =
  new_title :: string
  new_content :: string

type_synonym post_table = "post list"

definition next_id :: "post_table \<Rightarrow> nat" where
  "next_id db = Suc (foldr max (map post_id db) 0)"

text \<open>\<^verbatim>\<open>db.add(new_post); db.commit(); db.refresh(new_post)\<close>\<close>

definition add_commit_refresh :: "post_table \<Rightarrow> string \<Rightarrow> string \<Rightarrow> post \<times> post_table" where
  "add_commit_refresh db t c =
     (let new_post = \<lparr>post_id = next_id db, title = t, content = c\<rparr>
      in (new_post, db @ [new_post]))"

datatype http_error = HTTPException nat string

text \<open>\<^verbatim>\<open>app/routers/posts.py\<close>, the synchronous variant.\<close>

definition create_post_sync :: "post_table \<Rightarrow> post_create \<Rightarrow> (http_error + post) \<times> post_table" where
  "create_post_sync db p =
     (case find (\<lambda>r. title r = new_title p) db of
        Some db_post \<Rightarrow> (Inl (HTTPException 400 ''Post already exists''), db)
      | None \<Rightarrow>
          (case add_commit_refresh db (new_title p) (new_content p) of
             (new_post, db1) \<Rightarrow> (Inr new_post, db1)))"

text \<open>\<^verbatim>\<open>app/api/posts.py\<close>, the asynchronous variant.\<close>

definition create_post_async :: "post_table \<Rightarrow> post_create \<Rightarrow> (http_error + post) \<times> post_table" where
  "create_post_async db p =
     (case add_commit_refresh db (new_title p) (new_content p) of
        (new_post, db1) \<Rightarrow> (Inr new_post, db1))"

section \<open>A concrete installation\<close>

text \<open>
  The program installed as \<^verbatim>\<open>/home/u/agent.py\<close> on a host with the limits of Linux, a
  scripted shell and a scripted hosted model, and a small file system: the workspace with
  a directory \<^verbatim>\<open>docs\<close> (a file and a directory inside), an empty directory, a text
  file and a file that is not UTF-8; beside the workspace, a directory whose name begins
  with the workspace's. The scripted parser answers the texts used below as
  \<^verbatim>\<open>json.loads\<close> does.
\<close>

definition example_json_loads :: "string \<Rightarrow> error + parsed" where
  "example_json_loads s =
     (if 100000 \<le> length s \<and> s = replicate (length s) (CHR ''['')
      then Inl (RecursionError
                  (''maximum recursion depth exceeded while decoding a JSON array ''
                   @ ''from a unicode string''))
      else if s = ''{}'' then Inr (Mapping [])
      else if s = ''[1, 2]'' then Inr NotMapping
      else if s = ''{'' @ [DQUOTE] @ ''path'' @ [DQUOTE] @ '': '' @ [DQUOTE] @ ''../../etc''
                @ [DQUOTE] @ ''}''
      then Inr (Mapping [(''path'', PStr ''../../etc'')])
      else if s = ''{oops''
      then Inl (JSONDecodeError
                  ''Expecting property name enclosed in double quotes: line 1 column 2 (char 1)'')
      else Inl (JSONDecodeError ''Expecting value: line 1 column 1 (char 0)''))"

definition example_subprocess_run ::
  "pyval \<Rightarrow> path \<Rightarrow> filesystem \<Rightarrow> (error + completed option) \<times> filesystem" where
  "example_subprocess_run command cwd fs =
     (if command = PStr ''sleep 70'' then (Inr None, fs)
      else (Inr (Some \<lparr>stdout = ''ok'', stderr = [], returncode = 0\<rparr>), fs))"

definition example_chat_create :: "message list list \<Rightarrow> message list \<Rightarrow> error + response" where
  "example_chat_create history messages =
     (if history \<noteq> []
      then Inr \<lparr>msg_role = ''assistant'', msg_content = Some ''Done.'', msg_tool_calls = []\<rparr>
      else if UserMessage ''read the nested file'' \<in> set messages
      then Inr \<lparr>msg_role = ''assistant'', msg_content = None,
                msg_tool_calls =
                  [\<lparr>call_id = ''call_1'', call_type = ''function'',
                    call_name = ''read_file'',
                    call_arguments = replicate 100000 (CHR ''['')\<rparr>]\<rparr>
      else Inr \<lparr>msg_role = ''assistant'', msg_content = None,
                msg_tool_calls =
                  [\<lparr>call_id = ''call_1'', call_type = ''function'',
                    call_name = ''format_disk'', call_arguments = ''{}''\<rparr>]\<rparr>)"

definition example_env :: env where
  "example_env =
     \<lparr>script = ''/home/u/agent.py'',
      SYSTEM_PROMPT = ''You are Local GPT Dev Agent.'',
      NAME_MAX = 255,
      PATH_MAX = 4096,
      json_loads = example_json_loads,
      subprocess_run = example_subprocess_run,
      chat_create = example_chat_create\<rparr>"

definition example_workspace :: path where
  "example_workspace = [''home'', ''u'', ''agent_workspace'']"

definition example_files :: filesystem where
  "example_files =
     [([], Directory),
      ([''home''], Directory),
      ([''home'', ''u''], Directory),
      ([''home'', ''u'', ''agent.py''], TextFile ''import json''),
      ([''home'', ''u'', ''agent_workspace''], Directory),
      ([''home'', ''u'', ''agent_workspace'', ''docs''], Directory),
      ([''home'', ''u'', ''agent_workspace'', ''docs'', ''b.txt''], TextFile ''beta''),
      ([''home'', ''u'', ''agent_workspace'', ''docs'', ''api''], Directory),
      ([''home'', ''u'', ''agent_workspace'', ''empty''], Directory),
      ([''home'', ''u'', ''agent_workspace'', ''notes.txt''], TextFile ''old''),
      ([''home'', ''u'', ''agent_workspace'', ''image.bin''], BinaryFile),
      ([''home'', ''u'', ''agent_workspace2''], Directory)]"

definition example_world :: world where
  "example_world = \<lparr>files = example_files, CURRENT_DIR = [], requests = []\<rparr>"

definition example_world_docs :: world where
  "example_world_docs = \<lparr>files = example_files, CURRENT_DIR = [''docs''], requests = []\<rparr>"

definition example_world_long :: world where
  "example_world_long =
     \<lparr>files = [([''home'', ''u'', ''agent_workspace'', ''long.txt''],
                TextFile (replicate 5000 (CHR ''x'')))],
      CURRENT_DIR = [], requests = []\<rparr>"

text \<open>The same installation after the workspace directory has been removed while the
  current directory was \<^verbatim>\<open>docs\<close>.\<close>

definition example_world_deleted :: world where
  "example_world_deleted =
     \<lparr>files = [([], Directory), ([''home''], Directory), ([''home'', ''u''], Directory),
               ([''home'', ''u'', ''agent.py''], TextFile ''import json'')],
      CURRENT_DIR = [''docs''], requests = []\<rparr>"

section \<open>Properties\<close>

subsection \<open>Canonical paths\<close>

text \<open>A path is normalized when it has no empty component, no \<^verbatim>\<open>.\<close> and no \<^verbatim>\<open>..\<close>.\<close>

definition normalized :: "path \<Rightarrow> bool" where
  "normalized p = list_all (\<lambda>c. c \<noteq> [] \<and> c \<noteq> ''.'' \<and> c \<noteq> ''..'') p"


lemma normalized_append: "normalized (p @ q) = (normalized p \<and> normalized q)"
  by (simp add: normalized_def)

lemma normalized_butlast: "normalized p \<Longrightarrow> normalized (butlast p)"
  by (auto simp: normalized_def list_all_iff dest: in_set_butlastD)

lemma normalized_drop: "normalized p \<Longrightarrow> normalized (drop n p)"
  by (auto simp: normalized_def list_all_iff dest: in_set_dropD)

lemma normalized_resolve_step: "normalized acc \<Longrightarrow> normalized (resolve_step acc c)"
  by (auto simp: resolve_step_def normalized_butlast) (simp add: normalized_def)

lemma normalized_foldl: "normalized acc \<Longrightarrow> normalized (foldl resolve_step acc p)"
  by (induction p arbitrary: acc) (simp_all add: normalized_resolve_step)

lemma normalized_resolve: "normalized (resolve p)"
  unfolding resolve_def by (rule normalized_foldl) (simp add: normalized_def)

lemma foldl_resolve_normalized: "normalized p \<Longrightarrow> foldl resolve_step acc p = acc @ p"
  by (induction p arbitrary: acc) (simp_all add: normalized_def resolve_step_def)

lemma resolve_normalized: "normalized p \<Longrightarrow> resolve p = p"
  by (simp add: resolve_def foldl_resolve_normalized)

lemma normalized_WORKSPACE: "normalized (WORKSPACE e)"
  by (simp add: WORKSPACE_def BASE_DIR_def normalized_append normalized_butlast normalized_resolve)
     (simp add: normalized_def)

lemma WORKSPACE_nonempty: "WORKSPACE e \<noteq> []"
  by (simp add: WORKSPACE_def)

lemma path_str_append:
  "p \<noteq> [] \<Longrightarrow> path_str (p @ q) = path_str p @ concat (map (\<lambda>c. CHR ''/'' # c) q)"
  by (simp add: path_str_def)

lemma WORKSPACE_example: "WORKSPACE example_env = example_workspace"
  by (simp add: WORKSPACE_def BASE_DIR_def example_env_def example_workspace_def parts_def
      resolve_def resolve_step_def)

lemma resolve_joined_normalized: "resolve_joined base rel = Inr t \<Longrightarrow> normalized t"
  by (auto simp: resolve_joined_def normalized_resolve split: if_splits)

subsection \<open>White space at the ends of a string\<close>

lemma not_space_slash: "\<not> py_isspace (CHR ''/'')"
  by (simp add: py_isspace_def)

lemma rstrip_Cons_nonspace: "\<not> py_isspace c \<Longrightarrow> rstrip (c # cs) = c # rstrip cs"
  by (simp add: rstrip_def dropWhile_append3)

lemma strip_Cons_nonspace: "\<not> py_isspace c \<Longrightarrow> strip (c # cs) = c # rstrip cs"
  by (simp add: strip_def lstrip_def rstrip_Cons_nonspace)

lemma lstrip_slash_no_slash: "\<not> startswith (lstrip_slash s) ''/''"
  by (induction s) (simp_all add: lstrip_slash_def)

subsection \<open>Paths with a leading slash\<close>

lemma safe_path_slash:
  "safe_path e w (PStr (CHR ''/'' # rest)) =
     (let remainder = lstrip_slash (strip (replace_backslash (CHR ''/'' # rest)));
          target = resolve (WORKSPACE e @ parts remainder)
      in if list_ex (\<lambda>c. CHR 0x00 \<in> set c) (parts remainder)
         then Inl (ValueError ''embedded null byte'')
         else if startswith (path_str target) (path_str (WORKSPACE e)) then Inr target
         else Inl (ValueError (''Refusing to access path outside workspace: '' @ path_str target)))"
  by (simp add: safe_path_def resolve_joined_def replace_backslash_def strip_Cons_nonspace
      not_space_slash Let_def)

lemma safe_path_slash_a_b: "safe_path e w (PStr ''/a/b'') = Inr (WORKSPACE e @ [''a'', ''b''])"
proof -
  have n: "normalized (WORKSPACE e @ [''a'', ''b''])"
    by (simp add: normalized_append normalized_WORKSPACE) (simp add: normalized_def)
  have p: "parts ''a/b'' = [''a'', ''b'']"
    by (simp add: parts_def)
  have s: "lstrip_slash (strip (replace_backslash ''/a/b'')) = ''a/b''"
    by (simp add: lstrip_slash_def strip_def lstrip_def rstrip_def replace_backslash_def
        py_isspace_def)
  show ?thesis
    unfolding safe_path_slash Let_def s p resolve_normalized[OF n]
    by (simp add: path_str_append WORKSPACE_nonempty)
qed

text \<open>
  C7. A path string that begins with \<^verbatim>\<open>/\<close> is resolved from the workspace root: its
  leading slashes are stripped, what remains (which no longer begins with a slash) is
  joined to \<open>WORKSPACE\<close> and made canonical, and the result is that path or the refusal
  to leave the workspace (or, when a component holds a NUL, the \<^verbatim>\<open>ValueError\<close> of the
  look-up). The current directory plays no part: any two states give the same result.
  In particular \<^verbatim>\<open>safe_path("/a/b")\<close> is \<^verbatim>\<open>WORKSPACE/a/b\<close>.
\<close>

theorem safe_path_leading_slash:
  "safe_path e w (PStr (CHR ''/'' # rest)) =
     (let remainder = lstrip_slash (strip (replace_backslash (CHR ''/'' # rest)));
          target = resolve (WORKSPACE e @ parts remainder)
      in if list_ex (\<lambda>c. CHR 0x00 \<in> set c) (parts remainder)
         then Inl (ValueError ''embedded null byte'')
         else if startswith (path_str target) (path_str (WORKSPACE e)) then Inr target
         else Inl (ValueError (''Refusing to access path outside workspace: '' @ path_str target)))
   \<and> \<not> startswith (lstrip_slash (strip (replace_backslash (CHR ''/'' # rest)))) ''/''
   \<and> safe_path e w (PStr (CHR ''/'' # rest)) = safe_path e w' (PStr (CHR ''/'' # rest))
   \<and> safe_path e w (PStr ''/a/b'') = Inr (WORKSPACE e @ [''a'', ''b''])"
proof -
  have "safe_path e w (PStr (CHR ''/'' # rest)) = safe_path e w' (PStr (CHR ''/'' # rest))"
    by (simp only: safe_path_slash)
  then show ?thesis
    using safe_path_slash[of e w rest] lstrip_slash_no_slash safe_path_slash_a_b[of e w]
    by blast
qed

theorem safe_path_leading_slash_witness:
  "safe_path example_env example_world_docs (PStr ''/etc/passwd'')
     = Inr [''home'', ''u'', ''agent_workspace'', ''etc'', ''passwd'']
   \<and> safe_path example_env example_world_docs (PStr ''/etc/passwd'')
     = safe_path example_env example_world (PStr ''/etc/passwd'')
   \<and> safe_path example_env example_world_docs (PStr ''/a/b'')
     = Inr [''home'', ''u'', ''agent_workspace'', ''a'', ''b'']"
proof -
  have r: "lstrip_slash (strip (replace_backslash ''/etc/passwd'')) = ''etc/passwd''"
    by (simp add: lstrip_slash_def strip_def lstrip_def rstrip_def replace_backslash_def
        py_isspace_def)
  have t: "resolve (example_workspace @ parts ''etc/passwd'')
             = [''home'', ''u'', ''agent_workspace'', ''etc'', ''passwd'']"
    by (simp add: example_workspace_def parts_def resolve_def resolve_step_def)
  have n: "\<not> list_ex (\<lambda>c. CHR 0x00 \<in> set c) (parts ''etc/passwd'')"
    by (simp add: parts_def)
  have s: "startswith (path_str [''home'', ''u'', ''agent_workspace'', ''etc'', ''passwd''])
             (path_str example_workspace)"
    by (simp add: path_str_def example_workspace_def)
  from safe_path_leading_slash[of example_env example_world_docs "''etc/passwd''" example_world]
  show ?thesis
    by (simp add: r t n s WORKSPACE_example Let_def) (auto simp: example_workspace_def)
qed

subsection \<open>The boundary check of \<open>safe_path\<close>\<close>

lemma safe_path_startswith:
  "safe_path e w a = Inr p \<Longrightarrow> startswith (path_str p) (path_str (WORKSPACE e))"
  by (auto simp: safe_path_def Let_def split: pyval.splits if_splits sum.splits)

lemma safe_path_normalized: "safe_path e w a = Inr p \<Longrightarrow> normalized p"
  by (auto simp: safe_path_def Let_def resolve_joined_normalized
      split: pyval.splits if_splits sum.splits)


text \<open>
  C1. The claim is that every path \<open>safe_path\<close> returns lies under the workspace root,
  and that a path outside it is refused before the file system is touched. The check in
  the code compares the texts of the two paths, so a path beside the workspace whose name
  begins with the workspace's name passes: in the concrete installation
  \<^verbatim>\<open>../agent_workspace2/x\<close> is returned as \<^verbatim>\<open>/home/u/agent_workspace2/x\<close>, which is not
  below \<^verbatim>\<open>/home/u/agent_workspace\<close>, and \<open>tool_write_file\<close> writes that file before it
  raises on the path's relative form.
\<close>

theorem safe_path_accepts_sibling_of_workspace:
  "safe_path example_env example_world (PStr ''../agent_workspace2/x'')
     = Inr [''home'', ''u'', ''agent_workspace2'', ''x'']
   \<and> WORKSPACE example_env = [''home'', ''u'', ''agent_workspace'']
   \<and> \<not> prefix (WORKSPACE example_env) [''home'', ''u'', ''agent_workspace2'', ''x'']
   \<and> tool_write_file example_env example_world
         (PStr ''../agent_workspace2/x'') (PStr ''data'') (PBool False)
     = (Inl (ValueError
          ''/home/u/agent_workspace2/x is not in the subpath of /home/u/agent_workspace''),
        example_world\<lparr>files :=
          example_files @ [([''home'', ''u'', ''agent_workspace2'', ''x''], TextFile ''data'')]\<rparr>)"
  by code_simp


subsection \<open>Looking a path up\<close>

lemma os_stat_Some: "map_of fs p = Some n \<Longrightarrow> os_stat e fs p = Inr (Some n)"
  by (simp add: os_stat_def)


lemma os_stat_Inr: "os_stat e fs p = Inr n \<Longrightarrow> map_of fs p = n"
  by (auto simp: os_stat_def split: option.splits if_splits)

lemma os_stat_Inl: "os_stat e fs p = Inl x \<Longrightarrow> map_of fs p = None \<and> x = ENAMETOOLONG p"
  by (auto simp: os_stat_def split: option.splits if_splits)

subsection \<open>Listing a directory\<close>


















subsection \<open>Reading a file\<close>

lemma str_nat_4000: "str_nat 4000 = ''4000''"
  by code_simp

lemma universal_newlines_no_CR: "CR \<notin> set s \<Longrightarrow> universal_newlines s = s"
  by (induction s rule: universal_newlines.induct) auto


lemma is_file_iff:
  "is_file fs p = ((\<exists>s. map_of fs p = Some (TextFile s)) \<or> map_of fs p = Some BinaryFile)"
  by (auto simp: is_file_def split: option.splits node.splits)

lemma Path_exists_TextFile:
  "map_of fs p = Some (TextFile s) \<Longrightarrow> Path_exists e fs p = Inr True"
  by (simp add: Path_exists_def os_stat_Some)

lemma Path_is_file_TextFile:
  "map_of fs p = Some (TextFile s) \<Longrightarrow> Path_is_file e fs p = Inr True"
  by (simp add: Path_is_file_def os_stat_Some)

text \<open>
  C4. When the text of a file, as \<^verbatim>\<open>read_text\<close> decodes it, is longer than 4000
  characters, \<open>tool_read_file\<close> returns the notice ``File content (truncated to 4000
  characters):'', a line feed, exactly the first 4000 characters of the text, a line feed
  and the marker ``...[truncated]...''; nothing of the text past its first 4000
  characters is in the result. (The decoded text is the file's text itself when that has
  no carriage return.)
\<close>

theorem read_file_truncates:
  assumes "safe_path e w path = Inr p"
    and "map_of (files w) p = Some (TextFile s)"
    and "length (universal_newlines s) > 4000"
  shows "tool_read_file e w path
           = Inr (''File content (truncated to 4000 characters):'' @ [LF]
                  @ take 4000 (universal_newlines s) @ [LF] @ ''...[truncated]...'')
         \<and> length (take 4000 (universal_newlines s)) = 4000
         \<and> (CR \<notin> set s \<longrightarrow> take 4000 (universal_newlines s) = take 4000 s)"
  using assms
  by (simp add: tool_read_file_def Path_exists_TextFile Path_is_file_TextFile max_len_def
      str_nat_4000 universal_newlines_no_CR)

theorem read_file_truncates_witness:
  "tool_read_file example_env example_world_long (PStr ''long.txt'')
     = Inr (''File content (truncated to 4000 characters):'' @ [LF]
            @ replicate 4000 (CHR ''x'') @ [LF] @ ''...[truncated]...'')"
proof -
  have sp: "safe_path example_env example_world_long (PStr ''long.txt'')
              = Inr [''home'', ''u'', ''agent_workspace'', ''long.txt'']"
    by (simp add: safe_path_def resolve_joined_def get_current_abs_dir_def WORKSPACE_example
        example_world_long_def example_workspace_def strip_def lstrip_def rstrip_def
        replace_backslash_def py_isspace_def parts_def resolve_def resolve_step_def path_str_def
        Let_def)
  have f: "map_of (files example_world_long) [''home'', ''u'', ''agent_workspace'', ''long.txt'']
              = Some (TextFile (replicate 5000 (CHR ''x'')))"
    by (simp add: example_world_long_def)
  have u: "universal_newlines (replicate 5000 (CHR ''x'')) = replicate 5000 (CHR ''x'')"
    by (simp add: universal_newlines_no_CR)
  have l: "length (universal_newlines (replicate 5000 (CHR ''x''))) > 4000"
    by (simp add: u)
  from read_file_truncates[OF sp f l] show ?thesis
    by (simp add: u)
qed


subsection \<open>Creating the directories above a file\<close>


lemma byte_length_Cons: "byte_length (c # s) = (if (of_char c :: nat) < 128 then 1 else 2) + byte_length s"
  by (simp add: byte_length_def)









subsection \<open>Writing a file and reading it back\<close>






subsection \<open>Navigation\<close>

lemma normalized_cd_candidate: "cd_candidate e w s = Inr c \<Longrightarrow> normalized c"
  by (auto simp: cd_candidate_def resolve_joined_normalized split: if_splits)

lemma cd_candidate_Inl:
  "cd_candidate e w s = Inl x \<Longrightarrow>
     x = ValueError ''embedded null byte'' \<and> list_ex (\<lambda>c. CHR 0x00 \<in> set c) (parts s)"
  by (auto simp: cd_candidate_def resolve_joined_def split: if_splits)

lemma under_workspace_root: "CURRENT_DIR w = [] \<Longrightarrow> under_workspace e w"
  by (simp add: under_workspace_def get_current_abs_dir_def resolve_normalized
      normalized_WORKSPACE)

lemma under_workspace_rel:
  assumes "prefix (WORKSPACE e) c" and "normalized c"
    and "CURRENT_DIR w = drop (length (WORKSPACE e)) c"
  shows "under_workspace e w"
proof -
  have "WORKSPACE e @ CURRENT_DIR w = c"
    using assms(1,3) by (auto simp: prefix_def)
  then show ?thesis
    using assms(1,2) by (simp add: under_workspace_def get_current_abs_dir_def resolve_normalized)
qed

lemma under_workspace_cong:
  "CURRENT_DIR w' = CURRENT_DIR w \<Longrightarrow> under_workspace e w' = under_workspace e w"
  by (simp add: under_workspace_def get_current_abs_dir_def)

text \<open>The three things \<open>change_directory\<close> can do to the state.\<close>

lemma change_directory_cases:
  "snd (change_directory e w arg) = w
   \<or> snd (change_directory e w arg) = w\<lparr>CURRENT_DIR := []\<rparr>
   \<or> (\<exists>c. strip arg \<noteq> [] \<and> cd_candidate e w (strip_quotes (strip arg)) = Inr c
          \<and> prefix (WORKSPACE e) c
          \<and> snd (change_directory e w arg) = w\<lparr>CURRENT_DIR := drop (length (WORKSPACE e)) c\<rparr>)"
  by (simp add: change_directory_def Let_def relative_to_def split: sum.splits)

lemma change_directory_under:
  assumes "under_workspace e w"
  shows "under_workspace e (snd (change_directory e w arg))"
  using change_directory_cases[of e w arg] assms
  by (auto intro: under_workspace_root under_workspace_rel simp: normalized_cd_candidate)

lemma change_directory_unchanged_or_under:
  "CURRENT_DIR (snd (change_directory e w arg)) = CURRENT_DIR w
   \<or> under_workspace e (snd (change_directory e w arg))"
  using change_directory_cases[of e w arg]
  by (auto intro: under_workspace_root under_workspace_rel simp: normalized_cd_candidate)

lemma change_directory_fail_closed:
  assumes "strip arg \<noteq> []"
    and "cd_candidate e w (strip_quotes (strip arg)) = Inr c"
    and "\<not> prefix (WORKSPACE e) c"
  shows "snd (change_directory e w arg) = w"
  using assms by (auto simp add: change_directory_def Let_def relative_to_def split: sum.splits)

lemma change_directory_requests:
  "requests (snd (change_directory e w arg)) = requests w"
  using change_directory_cases[of e w arg] by auto

lemma change_directory_empty_arg:
  "strip arg = [] \<Longrightarrow> change_directory e w arg = (Inr root_message, w\<lparr>CURRENT_DIR := []\<rparr>)"
  by (simp add: change_directory_def)

lemma change_directory_root:
  "strip arg \<noteq> [] \<Longrightarrow> cd_candidate e w (strip_quotes (strip arg)) = Inr (WORKSPACE e)
   \<Longrightarrow> change_directory e w arg = (Inr root_message, w\<lparr>CURRENT_DIR := []\<rparr>)"
  by (simp add: change_directory_def)

lemma change_directory_raises_resolve:
  "strip arg \<noteq> [] \<Longrightarrow> cd_candidate e w (strip_quotes (strip arg)) = Inl x
   \<Longrightarrow> change_directory e w arg = (Inl x, w)"
  by (simp add: change_directory_def)

lemma change_directory_outside:
  "strip arg \<noteq> [] \<Longrightarrow> cd_candidate e w (strip_quotes (strip arg)) = Inr c
   \<Longrightarrow> c \<noteq> WORKSPACE e \<Longrightarrow> \<not> startswith (path_str c) (path_str (WORKSPACE e))
   \<Longrightarrow> change_directory e w arg
         = (Inr (''Refusing to cd outside workspace root: '' @ path_str c), w)"
  by (simp add: change_directory_def)

lemma change_directory_raises_stat:
  "strip arg \<noteq> [] \<Longrightarrow> cd_candidate e w (strip_quotes (strip arg)) = Inr c
   \<Longrightarrow> c \<noteq> WORKSPACE e \<Longrightarrow> startswith (path_str c) (path_str (WORKSPACE e))
   \<Longrightarrow> os_stat e (files w) c = Inl x
   \<Longrightarrow> change_directory e w arg = (Inl x, w)"
  by (simp add: change_directory_def Path_exists_def)

lemma change_directory_missing:
  "strip arg \<noteq> [] \<Longrightarrow> cd_candidate e w (strip_quotes (strip arg)) = Inr c
   \<Longrightarrow> c \<noteq> WORKSPACE e \<Longrightarrow> startswith (path_str c) (path_str (WORKSPACE e))
   \<Longrightarrow> os_stat e (files w) c = Inr None
   \<Longrightarrow> change_directory e w arg
         = (Inr (''Directory does not exist: ''
                 @ (if prefix (WORKSPACE e) c then rel_str (drop (length (WORKSPACE e)) c)
                    else path_str c)), w)"
  by (simp add: change_directory_def Path_exists_def relative_to_def)

lemma change_directory_not_directory:
  "strip arg \<noteq> [] \<Longrightarrow> cd_candidate e w (strip_quotes (strip arg)) = Inr c
   \<Longrightarrow> c \<noteq> WORKSPACE e \<Longrightarrow> startswith (path_str c) (path_str (WORKSPACE e))
   \<Longrightarrow> os_stat e (files w) c = Inr (Some n) \<Longrightarrow> n \<noteq> Directory
   \<Longrightarrow> change_directory e w arg
         = (Inr (''Not a directory: ''
                 @ (if prefix (WORKSPACE e) c then rel_str (drop (length (WORKSPACE e)) c)
                    else path_str c)), w)"
  by (simp add: change_directory_def Path_exists_def Path_is_dir_def relative_to_def)

text \<open>
  C5, as amended. Take a navigation argument that is not empty, whose candidate resolves
  (the argument holds no NUL) and is not the workspace root itself. When the candidate's
  path text does not begin with the workspace's path text, \<open>change_directory\<close> returns
  ``Refusing to cd outside workspace root'' with the candidate; otherwise, when the host
  looks the candidate up and finds nothing, it returns ``Directory does not exist'', and
  when the host finds something that is not a directory, ``Not a directory'', both with
  the candidate relative to the workspace when it lies under it. In the three cases the
  whole state, \<open>CURRENT_DIR\<close> included, is as it was. An empty argument and a candidate
  equal to the workspace root set \<open>CURRENT_DIR\<close> to the root with the root message and
  without any look-up. (The last two conjuncts record what happens outside the amended
  claim: an argument whose candidate does not resolve, and a candidate with the
  workspace's path text in front whose look-up raises, on a name the host cannot hold,
  make \<open>change_directory\<close> raise that error, the state being as it was.)
\<close>

theorem change_directory_rejects:
  "(strip arg \<noteq> [] \<and> cd_candidate e w (strip_quotes (strip arg)) = Inr c
      \<and> c \<noteq> WORKSPACE e \<and> \<not> startswith (path_str c) (path_str (WORKSPACE e)) \<longrightarrow>
      change_directory e w arg
        = (Inr (''Refusing to cd outside workspace root: '' @ path_str c), w))
   \<and> (strip arg \<noteq> [] \<and> cd_candidate e w (strip_quotes (strip arg)) = Inr c
      \<and> c \<noteq> WORKSPACE e \<and> startswith (path_str c) (path_str (WORKSPACE e))
      \<and> os_stat e (files w) c = Inr None \<longrightarrow>
      change_directory e w arg
        = (Inr (''Directory does not exist: ''
                @ (if prefix (WORKSPACE e) c then rel_str (drop (length (WORKSPACE e)) c)
                   else path_str c)), w))
   \<and> (strip arg \<noteq> [] \<and> cd_candidate e w (strip_quotes (strip arg)) = Inr c
      \<and> c \<noteq> WORKSPACE e \<and> startswith (path_str c) (path_str (WORKSPACE e))
      \<and> os_stat e (files w) c = Inr (Some n) \<and> n \<noteq> Directory \<longrightarrow>
      change_directory e w arg
        = (Inr (''Not a directory: ''
                @ (if prefix (WORKSPACE e) c then rel_str (drop (length (WORKSPACE e)) c)
                   else path_str c)), w))
   \<and> (strip arg = [] \<longrightarrow>
      change_directory e w arg = (Inr root_message, w\<lparr>CURRENT_DIR := []\<rparr>))
   \<and> (strip arg \<noteq> [] \<and> cd_candidate e w (strip_quotes (strip arg)) = Inr (WORKSPACE e) \<longrightarrow>
      change_directory e w arg = (Inr root_message, w\<lparr>CURRENT_DIR := []\<rparr>))
   \<and> (strip arg \<noteq> [] \<and> cd_candidate e w (strip_quotes (strip arg)) = Inl x \<longrightarrow>
      change_directory e w arg = (Inl x, w)
      \<and> x = ValueError ''embedded null byte''
      \<and> list_ex (\<lambda>c. CHR 0x00 \<in> set c) (parts (strip_quotes (strip arg))))
   \<and> (strip arg \<noteq> [] \<and> cd_candidate e w (strip_quotes (strip arg)) = Inr c
      \<and> c \<noteq> WORKSPACE e \<and> startswith (path_str c) (path_str (WORKSPACE e))
      \<and> os_stat e (files w) c = Inl x \<longrightarrow>
      change_directory e w arg = (Inl x, w) \<and> x = ENAMETOOLONG c
      \<and> name_too_long e (files w) c)"
proof -
  have tl: "os_stat e (files w) c = Inl x \<Longrightarrow> x = ENAMETOOLONG c \<and> name_too_long e (files w) c"
    by (auto simp: os_stat_def split: option.splits if_splits)
  show ?thesis
    using change_directory_outside[of arg e w c] change_directory_missing[of arg e w c]
      change_directory_not_directory[of arg e w c n] change_directory_empty_arg[of arg e w]
      change_directory_root[of arg e w] change_directory_raises_resolve[of arg e w x]
      cd_candidate_Inl[of e w "strip_quotes (strip arg)" x]
      change_directory_raises_stat[of arg e w c x] tl
    by blast
qed

theorem change_directory_rejects_witness:
  "change_directory example_env example_world_docs ''nonexistent-folder''
     = (Inr ''Directory does not exist: docs/nonexistent-folder'', example_world_docs)
   \<and> change_directory example_env example_world_docs ''/etc''
     = (Inr ''Refusing to cd outside workspace root: /etc'', example_world_docs)
   \<and> change_directory example_env example_world_docs ''b.txt''
     = (Inr ''Not a directory: docs/b.txt'', example_world_docs)"
proof -
  have c1: "cd_candidate example_env example_world_docs (strip_quotes (strip ''nonexistent-folder''))
              = Inr [''home'', ''u'', ''agent_workspace'', ''docs'', ''nonexistent-folder'']"
    and c2: "cd_candidate example_env example_world_docs (strip_quotes (strip ''/etc''))
              = Inr [''etc'']"
    and c3: "cd_candidate example_env example_world_docs (strip_quotes (strip ''b.txt''))
              = Inr [''home'', ''u'', ''agent_workspace'', ''docs'', ''b.txt'']"
    by code_simp+
  have s: "strip ''nonexistent-folder'' \<noteq> []" "strip ''/etc'' \<noteq> []" "strip ''b.txt'' \<noteq> []"
    by code_simp+
  have n: "[''home'', ''u'', ''agent_workspace'', ''docs'', ''nonexistent-folder'']
             \<noteq> WORKSPACE example_env"
    "[''etc''] \<noteq> WORKSPACE example_env"
    "[''home'', ''u'', ''agent_workspace'', ''docs'', ''b.txt''] \<noteq> WORKSPACE example_env"
    by (simp_all add: WORKSPACE_example example_workspace_def)
  have f: "os_stat example_env (files example_world_docs)
             [''home'', ''u'', ''agent_workspace'', ''docs'', ''nonexistent-folder''] = Inr None"
    "\<not> startswith (path_str [''etc'']) (path_str (WORKSPACE example_env))"
    "os_stat example_env (files example_world_docs)
       [''home'', ''u'', ''agent_workspace'', ''docs'', ''b.txt''] = Inr (Some (TextFile ''beta''))"
    "startswith (path_str [''home'', ''u'', ''agent_workspace'', ''docs'', ''nonexistent-folder''])
       (path_str (WORKSPACE example_env))"
    "startswith (path_str [''home'', ''u'', ''agent_workspace'', ''docs'', ''b.txt''])
       (path_str (WORKSPACE example_env))"
    by code_simp+
  have r: "rel_str [''docs'', ''nonexistent-folder''] = ''docs/nonexistent-folder''"
    "rel_str [''docs'', ''b.txt''] = ''docs/b.txt''" "path_str [''etc''] = ''/etc''"
    by code_simp+
  have r1: "change_directory example_env example_world_docs ''nonexistent-folder''
      = (Inr (''Directory does not exist: ''
              @ (if prefix (WORKSPACE example_env)
                      [''home'', ''u'', ''agent_workspace'', ''docs'', ''nonexistent-folder'']
                 then rel_str (drop (length (WORKSPACE example_env))
                        [''home'', ''u'', ''agent_workspace'', ''docs'', ''nonexistent-folder''])
                 else path_str
                        [''home'', ''u'', ''agent_workspace'', ''docs'', ''nonexistent-folder''])),
         example_world_docs)"
    using change_directory_rejects[of "''nonexistent-folder''" example_env example_world_docs
        "[''home'', ''u'', ''agent_workspace'', ''docs'', ''nonexistent-folder'']"]
      s(1) c1 n(1) f(1,4)
    by blast
  have r2: "change_directory example_env example_world_docs ''/etc''
      = (Inr (''Refusing to cd outside workspace root: '' @ path_str [''etc'']),
         example_world_docs)"
    using change_directory_rejects[of "''/etc''" example_env example_world_docs "[''etc'']"]
      s(2) c2 n(2) f(2)
    by blast
  have r3: "change_directory example_env example_world_docs ''b.txt''
      = (Inr (''Not a directory: ''
              @ (if prefix (WORKSPACE example_env)
                      [''home'', ''u'', ''agent_workspace'', ''docs'', ''b.txt'']
                 then rel_str (drop (length (WORKSPACE example_env))
                        [''home'', ''u'', ''agent_workspace'', ''docs'', ''b.txt''])
                 else path_str [''home'', ''u'', ''agent_workspace'', ''docs'', ''b.txt''])),
         example_world_docs)"
    using change_directory_rejects[of "''b.txt''" example_env example_world_docs
        "[''home'', ''u'', ''agent_workspace'', ''docs'', ''b.txt'']" "TextFile ''beta''"]
      s(3) c3 n(3) f(3,5)
    by blast
  show ?thesis
    unfolding r1 r2 r3 using r by (simp add: WORKSPACE_example example_workspace_def)
qed

text \<open>
  C5 as stated fails in the concrete installation. A candidate equal to the workspace
  root is taken as the root before any check: with the workspace directory removed and
  \<^verbatim>\<open>docs\<close> as current directory, \<^verbatim>\<open>cd ..\<close> resolves to a directory that does not exist,
  yet \<open>CURRENT_DIR\<close> changes to the root and the answer reports success. A name of 300
  letters does not exist in the workspace, and an argument with a NUL in it names no
  directory at all, yet for both the call raises instead of returning a message. And a
  candidate that is an existing directory beside the workspace, with a name that begins
  with the workspace's, passes the comparison of path texts, and the call raises too.
\<close>

theorem change_directory_counterexample:
  "change_directory example_env example_world_deleted ''..''
     = (Inr ''Current directory: / (workspace root)'',
        example_world_deleted\<lparr>CURRENT_DIR := []\<rparr>)
   \<and> cd_candidate example_env example_world_deleted (strip_quotes (strip ''..''))
     = Inr [''home'', ''u'', ''agent_workspace'']
   \<and> \<not> path_exists (files example_world_deleted) [''home'', ''u'', ''agent_workspace'']
   \<and> CURRENT_DIR example_world_deleted = [''docs'']
   \<and> change_directory example_env example_world (replicate 300 (CHR ''a''))
     = (Inl (OSError (''[Errno 36] File name too long: '' @ [QUOTE] @ ''/home/u/agent_workspace/''
                      @ replicate 300 (CHR ''a'') @ [QUOTE])),
        example_world)
   \<and> \<not> path_exists (files example_world)
         [''home'', ''u'', ''agent_workspace'', replicate 300 (CHR ''a'')]
   \<and> change_directory example_env example_world [CHR ''a'', CHR 0x00, CHR ''b'']
     = (Inl (ValueError ''embedded null byte''), example_world)
   \<and> change_directory example_env example_world ''../agent_workspace2''
     = (Inl (ValueError
          ''/home/u/agent_workspace2 is not in the subpath of /home/u/agent_workspace''),
        example_world)
   \<and> cd_candidate example_env example_world (strip_quotes (strip ''../agent_workspace2''))
     = Inr [''home'', ''u'', ''agent_workspace2'']
   \<and> \<not> prefix (WORKSPACE example_env) [''home'', ''u'', ''agent_workspace2'']
   \<and> is_dir (files example_world) [''home'', ''u'', ''agent_workspace2'']"
  by code_simp


subsection \<open>What the tools and the loop do to the current directory\<close>

lemma tool_create_directory_CURRENT_DIR:
  "CURRENT_DIR (snd (tool_create_directory e w a)) = CURRENT_DIR w"
  by (simp add: tool_create_directory_def split: sum.splits prod.splits option.splits)

lemma tool_write_file_CURRENT_DIR:
  "CURRENT_DIR (snd (tool_write_file e w a b c)) = CURRENT_DIR w"
  by (simp add: tool_write_file_def split: sum.splits pyval.splits prod.splits option.splits)

lemma tool_run_command_CURRENT_DIR:
  "CURRENT_DIR (snd (tool_run_command e w a)) = CURRENT_DIR w"
  by (simp add: tool_run_command_def Let_def split: sum.splits prod.splits option.splits)

lemma TOOL_IMPLEMENTATIONS_cases:
  "TOOL_IMPLEMENTATIONS n = Some f \<Longrightarrow>
     f = call_list_directory \<or> f = call_create_directory \<or> f = call_write_file
     \<or> f = call_read_file \<or> f = call_run_command"
  by (auto simp: TOOL_IMPLEMENTATIONS_def split: if_splits)

lemma call_CURRENT_DIR:
  "TOOL_IMPLEMENTATIONS n = Some f \<Longrightarrow> CURRENT_DIR (snd (f e w args)) = CURRENT_DIR w"
  by (drule TOOL_IMPLEMENTATIONS_cases)
     (auto simp: call_list_directory_def call_create_directory_def call_write_file_def
        call_read_file_def call_run_command_def tool_create_directory_CURRENT_DIR
        tool_write_file_CURRENT_DIR tool_run_command_CURRENT_DIR split: sum.splits)

lemma dispatch_CURRENT_DIR: "CURRENT_DIR (snd (dispatch e w n a)) = CURRENT_DIR w"
proof (cases "if a \<noteq> [] then json_loads e a else Inr (Mapping [])")
  case (Inl x)
  then show ?thesis by (cases x) (simp_all add: dispatch_def)
next
  case (Inr args)
  show ?thesis
  proof (cases "TOOL_IMPLEMENTATIONS n")
    case None
    with Inr show ?thesis by (simp add: dispatch_def)
  next
    case (Some f)
    from call_CURRENT_DIR[OF Some, of e w args] Inr Some show ?thesis
      by (auto simp: dispatch_def split: prod.splits sum.splits)
  qed
qed

lemma run_tool_calls_CURRENT_DIR:
  "CURRENT_DIR (snd (run_tool_calls e w calls)) = CURRENT_DIR w"
proof (induction calls arbitrary: w)
  case Nil
  then show ?case by simp
next
  case (Cons c cs)
  obtain r w1 where d: "dispatch e w (call_name c) (call_arguments c) = (r, w1)"
    by (cases "dispatch e w (call_name c) (call_arguments c)")
  have "CURRENT_DIR w1 = CURRENT_DIR w"
    using dispatch_CURRENT_DIR[of e w "call_name c" "call_arguments c"] d by simp
  with Cons.IH[of w1] d show ?case
    by (auto split: prod.splits sum.splits)
qed

lemma agent_loop_CURRENT_DIR_snd:
  assumes "agent_loop e w ms = Some y"
  shows "CURRENT_DIR (snd y) = CURRENT_DIR w"
proof (rule agent_loop.raw_induct[where P = "\<lambda>e w ms y. CURRENT_DIR (snd y) = CURRENT_DIR w"])
  show "agent_loop e w ms = Some y"
    by (rule assms)
next
  fix f :: "env \<Rightarrow> world \<Rightarrow> message list \<Rightarrow> ((error + string) \<times> world) option"
    and e w messages y
  assume IH: "\<And>e w messages y. f e w messages = Some y \<Longrightarrow> CURRENT_DIR (snd y) = CURRENT_DIR w"
  assume body: "(case chat_create e (requests w) messages of
        Inl x \<Rightarrow> Some (Inl x, w\<lparr>requests := requests w @ [messages]\<rparr>)
      | Inr msg \<Rightarrow>
          if msg_tool_calls msg \<noteq> [] then
            (case run_tool_calls e (w\<lparr>requests := requests w @ [messages]\<rparr>) (msg_tool_calls msg) of
               (Inl x, w1) \<Rightarrow> Some (Inl x, w1)
             | (Inr results, w1) \<Rightarrow>
                 f e w1
                   (messages
                    @ [AssistantMessage (msg_role msg) (msg_content msg) (msg_tool_calls msg)]
                    @ results))
          else
            Some (Inr (case msg_content msg of None \<Rightarrow> [] | Some c \<Rightarrow> c),
                  w\<lparr>requests := requests w @ [messages]\<rparr>)) = Some y"
  show "CURRENT_DIR (snd y) = CURRENT_DIR w"
  proof (cases "chat_create e (requests w) messages")
    case (Inl x)
    with body show ?thesis by auto
  next
    case (Inr msg)
    show ?thesis
    proof (cases "msg_tool_calls msg = []")
      case True
      with body Inr show ?thesis by auto
    next
      case False
      obtain results w1 where
        rt: "run_tool_calls e (w\<lparr>requests := requests w @ [messages]\<rparr>) (msg_tool_calls msg)
               = (results, w1)"
        by (cases "run_tool_calls e (w\<lparr>requests := requests w @ [messages]\<rparr>) (msg_tool_calls msg)")
      have "CURRENT_DIR w1 = CURRENT_DIR w"
        using run_tool_calls_CURRENT_DIR[of e "w\<lparr>requests := requests w @ [messages]\<rparr>" "msg_tool_calls msg"] rt
        by simp
      moreover have "CURRENT_DIR (snd y) = CURRENT_DIR w1"
      proof (cases results)
        case (Inl x)
        with body Inr False rt show ?thesis by auto
      next
        case (Inr res)
        with body \<open>chat_create e (requests w) messages = Inr msg\<close> False rt show ?thesis
          by (auto intro: IH)
      qed
      ultimately show ?thesis by simp
    qed
  qed
qed

lemma run_agent_turn_CURRENT_DIR:
  "run_agent_turn e w u = Some (r, w') \<Longrightarrow> CURRENT_DIR w' = CURRENT_DIR w"
  using agent_loop_CURRENT_DIR_snd[of e w _ "(r, w')"] by (simp add: run_agent_turn_def)

lemma main_step_blank: "strip line = [] \<Longrightarrow> main_step e w line = Some (Continue [], w)"
  by (simp add: main_step_def)

lemma main_step_quit:
  "strip line \<noteq> [] \<Longrightarrow> lower (strip line) = ''exit'' \<or> lower (strip line) = ''quit''
   \<Longrightarrow> main_step e w line = Some (Break [''Goodbye.''], w)"
  unfolding main_step_def Let_def by (simp only: if_True if_False)

lemma main_step_cd:
  "strip line \<noteq> [] \<Longrightarrow> \<not> (lower (strip line) = ''exit'' \<or> lower (strip line) = ''quit'')
   \<Longrightarrow> startswith (lower (strip line)) ''cd''
   \<Longrightarrow> main_step e w line =
        (case change_directory e w (path_arg_of (strip line)) of
           (Inl x, w1) \<Rightarrow> Some (Uncaught x, w1)
         | (Inr result, w1) \<Rightarrow> Some (Continue [[LF] @ ''Agent:'' @ [LF] @ result @ [LF]], w1))"
  unfolding main_step_def Let_def path_arg_of_def by (simp only: if_True if_False)

lemma main_step_turn:
  "strip line \<noteq> [] \<Longrightarrow> \<not> (lower (strip line) = ''exit'' \<or> lower (strip line) = ''quit'')
   \<Longrightarrow> \<not> startswith (lower (strip line)) ''cd''
   \<Longrightarrow> main_step e w line =
        (case run_agent_turn e w (strip line) of
           None \<Rightarrow> None
         | Some (Inl x, w1) \<Rightarrow>
             Some (Continue [''Agent: thinking...'', ''Agent error: '' @ error_str x], w1)
         | Some (Inr reply, w1) \<Rightarrow>
             Some (Continue [''Agent: thinking...'', [LF] @ ''Agent:'' @ [LF] @ reply @ [LF]],
                   w1))"
  unfolding main_step_def Let_def by (simp only: if_True if_False)

lemma main_step_under:
  assumes "under_workspace e w" and "main_step e w line = Some (r, w')"
  shows "under_workspace e w'"
proof -
  let ?u = "strip line"
  consider (blank) "?u = []"
    | (quit) "?u \<noteq> []" "lower ?u = ''exit'' \<or> lower ?u = ''quit''"
    | (cd) "?u \<noteq> []" "\<not> (lower ?u = ''exit'' \<or> lower ?u = ''quit'')"
        "startswith (lower ?u) ''cd''"
    | (turn) "?u \<noteq> []" "\<not> (lower ?u = ''exit'' \<or> lower ?u = ''quit'')"
        "\<not> startswith (lower ?u) ''cd''"
    by blast
  then show ?thesis
  proof cases
    case blank
    from assms(2) have "w' = w"
      unfolding main_step_blank[OF blank] by simp
    with assms(1) show ?thesis by simp
  next
    case quit
    from assms(2) have "w' = w"
      unfolding main_step_quit[OF quit] by simp
    with assms(1) show ?thesis by simp
  next
    case cd
    from assms(2) have "w' = snd (change_directory e w (path_arg_of ?u))"
      unfolding main_step_cd[OF cd] by (auto split: prod.splits sum.splits)
    then show ?thesis
      using change_directory_under[OF assms(1)] by simp
  next
    case turn
    from assms(2) obtain y where "run_agent_turn e w ?u = Some (y, w')"
      unfolding main_step_turn[OF turn] by (auto split: option.splits prod.splits sum.splits)
    then have "CURRENT_DIR w' = CURRENT_DIR w"
      by (rule run_agent_turn_CURRENT_DIR)
    then have "under_workspace e w' = under_workspace e w"
      by (rule under_workspace_cong)
    then show ?thesis
      using assms(1) by simp
  qed
qed

lemma main_loop_under:
  "under_workspace e w \<Longrightarrow> main_loop e w lines = Some w' \<Longrightarrow> under_workspace e w'"
proof (induction lines arbitrary: w)
  case Nil
  then show ?case by simp
next
  case (Cons line rest)
  from Cons.prems(2) obtain r w1 where st: "main_step e w line = Some (r, w1)"
    by (auto split: option.splits)
  have u1: "under_workspace e w1"
    by (rule main_step_under[OF Cons.prems(1) st])
  show ?case
  proof (cases r)
    case (Continue out)
    with Cons.prems(2) st have "main_loop e w1 rest = Some w'" by simp
    then show ?thesis by (rule Cons.IH[OF u1])
  next
    case (Break out)
    with Cons.prems(2) st u1 show ?thesis by simp
  next
    case (Uncaught x)
    with Cons.prems(2) st u1 show ?thesis by simp
  qed
qed

lemma initial_world_CURRENT_DIR: "initial_world e fs = Inr w0 \<Longrightarrow> CURRENT_DIR w0 = []"
  by (auto simp: initial_world_def split: sum.splits)

text \<open>
  The part of C2 that holds of the path \<open>CURRENT_DIR\<close> spells. \<open>CURRENT_DIR\<close> starts as
  the workspace root. The tools leave it as it is: listing and reading return no state
  at all, and creating a directory, writing a file, running a command, and so every
  dispatched tool call, return a state with the same \<open>CURRENT_DIR\<close>. \<open>change_directory\<close>
  either leaves \<open>CURRENT_DIR\<close> as it is or sets it to a canonical path relative to the
  workspace, and on an argument whose candidate is not under the workspace it changes
  nothing. Hence, after any lines typed into the command loop from the initial state, the
  workspace path followed by \<open>CURRENT_DIR\<close> is a canonical path under the workspace.

  This does not make C2 true of the program. There \<^verbatim>\<open>get_current_abs_dir\<close> follows
  symbolic links, which this file system does not have, and \<^verbatim>\<open>tool_run_command\<close> uses
  its result without the check \<^verbatim>\<open>safe_path\<close> makes: once a command has put a link in the
  place of a directory that \<open>CURRENT_DIR\<close> names, the next command runs where the link
  leads.
\<close>

theorem CURRENT_DIR_spelled_under_workspace:
  "(initial_world e fs = Inr w0 \<longrightarrow> CURRENT_DIR w0 = [] \<and> under_workspace e w0)
   \<and> snd (call_list_directory e w args) = w
   \<and> snd (call_read_file e w args) = w
   \<and> CURRENT_DIR (snd (tool_create_directory e w a)) = CURRENT_DIR w
   \<and> CURRENT_DIR (snd (tool_write_file e w a b c)) = CURRENT_DIR w
   \<and> CURRENT_DIR (snd (tool_run_command e w a)) = CURRENT_DIR w
   \<and> CURRENT_DIR (snd (dispatch e w tool_name args_str)) = CURRENT_DIR w
   \<and> (CURRENT_DIR (snd (change_directory e w arg)) = CURRENT_DIR w
       \<or> under_workspace e (snd (change_directory e w arg)))
   \<and> (under_workspace e w \<longrightarrow> under_workspace e (snd (change_directory e w arg)))
   \<and> (strip arg \<noteq> [] \<and> cd_candidate e w (strip_quotes (strip arg)) = Inr cand
       \<and> \<not> prefix (WORKSPACE e) cand
       \<longrightarrow> snd (change_directory e w arg) = w)
   \<and> (initial_world e fs = Inr w0 \<and> main_loop e w0 lines = Some w1 \<longrightarrow> under_workspace e w1)"
proof -
  have i: "initial_world e fs = Inr w0 \<Longrightarrow> CURRENT_DIR w0 = [] \<and> under_workspace e w0"
    by (simp add: initial_world_CURRENT_DIR under_workspace_root)
  have l: "snd (call_list_directory e w args) = w" "snd (call_read_file e w args) = w"
    by (simp_all add: call_list_directory_def call_read_file_def split: sum.splits)
  have m: "initial_world e fs = Inr w0 \<and> main_loop e w0 lines = Some w1 \<Longrightarrow> under_workspace e w1"
    using i main_loop_under by blast
  show ?thesis
    using i m change_directory_unchanged_or_under[of e w arg] change_directory_under[of e w arg]
      change_directory_fail_closed[of arg e w cand]
    by (simp add: l tool_create_directory_CURRENT_DIR tool_write_file_CURRENT_DIR
        tool_run_command_CURRENT_DIR dispatch_CURRENT_DIR)
qed

subsection \<open>Lines that begin with cd\<close>

lemma lower_char_c: "lower_char x = CHR ''c'' \<Longrightarrow> x = CHR ''c'' \<or> x = CHR ''C''"
proof -
  assume a: "lower_char x = CHR ''c''"
  let ?n = "of_char x :: nat"
  have lt: "?n < 256" by simp
  show ?thesis
  proof (cases "(65 \<le> ?n \<and> ?n \<le> 90) \<or> (192 \<le> ?n \<and> ?n \<le> 222 \<and> ?n \<noteq> 215)")
    case True
    with a have "char_of (?n + 32) = CHR ''c''"
      by (simp add: lower_char_def Let_def)
    then have "(of_char (char_of (?n + 32)) :: nat) = of_char (CHR ''c'')"
      by simp
    then have "(?n + 32) mod 256 = 99"
      by (simp add: of_char_of)
    with True have "?n = 67" by auto
    then have "char_of ?n = (char_of (67::nat) :: char)" by simp
    moreover have "char_of (67::nat) = CHR ''C''" by code_simp
    ultimately have "x = CHR ''C''" by simp
    then show ?thesis by simp
  next
    case False
    with a show ?thesis by (simp add: lower_char_def Let_def)
  qed
qed

lemma lower_char_d: "lower_char x = CHR ''d'' \<Longrightarrow> x = CHR ''d'' \<or> x = CHR ''D''"
proof -
  assume a: "lower_char x = CHR ''d''"
  let ?n = "of_char x :: nat"
  show ?thesis
  proof (cases "(65 \<le> ?n \<and> ?n \<le> 90) \<or> (192 \<le> ?n \<and> ?n \<le> 222 \<and> ?n \<noteq> 215)")
    case True
    with a have "char_of (?n + 32) = CHR ''d''"
      by (simp add: lower_char_def Let_def)
    then have "(of_char (char_of (?n + 32)) :: nat) = of_char (CHR ''d'')"
      by simp
    then have "(?n + 32) mod 256 = 100"
      by (simp add: of_char_of)
    with True have "?n = 68" by auto
    then have "char_of ?n = (char_of (68::nat) :: char)" by simp
    moreover have "char_of (68::nat) = CHR ''D''" by code_simp
    ultimately have "x = CHR ''D''" by simp
    then show ?thesis by simp
  next
    case False
    with a show ?thesis by (simp add: lower_char_def Let_def)
  qed
qed

lemma startswith_cd:
  assumes "startswith (lower line) ''cd''"
  obtains c1 c2 rest where "line = c1 # c2 # rest" "\<not> py_isspace c1" "\<not> py_isspace c2"
    "lower_char c1 = CHR ''c''" "lower_char c2 = CHR ''d''"
proof -
  from assms obtain c1 c2 rest where l: "line = c1 # c2 # rest"
    and lc: "lower_char c1 = CHR ''c''" "lower_char c2 = CHR ''d''"
    by (cases line; cases "tl line") (auto simp: lower_def)
  have sp: "\<not> py_isspace c1" "\<not> py_isspace c2"
    using lower_char_c[OF lc(1)] lower_char_d[OF lc(2)] by (auto simp: py_isspace_def)
  show thesis
    by (rule that[OF l sp lc])
qed

lemma cd_line_is_navigation:
  assumes "startswith (lower line) ''cd''"
  shows "strip line \<noteq> []" "\<not> (lower (strip line) = ''exit'' \<or> lower (strip line) = ''quit'')"
    "startswith (lower (strip line)) ''cd''"
proof -
  from startswith_cd[OF assms] obtain c1 c2 rest where l: "line = c1 # c2 # rest"
    and sp: "\<not> py_isspace c1" "\<not> py_isspace c2"
    and lc: "lower_char c1 = CHR ''c''" "lower_char c2 = CHR ''d''"
    by blast
  have s: "strip line = c1 # c2 # rstrip rest"
    by (simp add: l strip_Cons_nonspace rstrip_Cons_nonspace sp)
  show "strip line \<noteq> []" by (simp add: s)
  show "\<not> (lower (strip line) = ''exit'' \<or> lower (strip line) = ''quit'')"
    by (simp add: s lower_def lc)
  show "startswith (lower (strip line)) ''cd''"
    by (simp add: s lower_def lc)
qed

lemma dropWhile_none: "\<forall>c\<in>set s. \<not> P c \<Longrightarrow> dropWhile P s = s"
  by (cases s) simp_all

lemma strip_no_space: "\<forall>c\<in>set s. \<not> py_isspace c \<Longrightarrow> strip s = s"
  by (simp add: strip_def lstrip_def rstrip_def dropWhile_none)

lemma path_arg_of_single_word:
  assumes "\<forall>c\<in>set s. \<not> py_isspace c"
  shows "path_arg_of s = []"
proof -
  have a: "dropWhile py_isspace s = s"
    using assms by (rule dropWhile_none)
  have b: "dropWhile (\<lambda>c. \<not> py_isspace c) s = []"
    using assms by simp
  show ?thesis
    by (simp add: path_arg_of_def split_maxsplit1_def Let_def a b)
qed

lemma change_directory_empty:
  "change_directory e w [] = (Inr root_message, w\<lparr>CURRENT_DIR := []\<rparr>)"
  by (simp add: change_directory_def strip_def lstrip_def rstrip_def)

text \<open>
  C10. A line whose lower-case form begins with \<^verbatim>\<open>cd\<close> is handled by \<open>change_directory\<close>
  on the text after its first word (the empty text when there is none), and the pass of
  the loop yields what \<open>change_directory\<close> yields: nothing is sent to the hosted model, the
  list of requests stays as it was. A line without white space, such as \<^verbatim>\<open>cdrom\<close>, is a
  navigation with an empty argument: \<open>CURRENT_DIR\<close> becomes the workspace root and the
  answer is the root message.
\<close>

theorem cd_prefix_lines_are_navigation:
  assumes "startswith (lower line) ''cd''"
  shows "main_step e w line =
           (case change_directory e w (path_arg_of (strip line)) of
              (Inl x, w1) \<Rightarrow> Some (Uncaught x, w1)
            | (Inr result, w1) \<Rightarrow>
                Some (Continue [[LF] @ ''Agent:'' @ [LF] @ result @ [LF]], w1))
     \<and> (\<exists>r w1. main_step e w line = Some (r, w1) \<and> requests w1 = requests w)
     \<and> ((\<forall>c\<in>set line. \<not> py_isspace c) \<longrightarrow>
          main_step e w line
            = Some (Continue [[LF] @ ''Agent:'' @ [LF] @ root_message @ [LF]],
                    w\<lparr>CURRENT_DIR := []\<rparr>))"
proof -
  note nav = cd_line_is_navigation[OF assms]
  have eq: "main_step e w line =
           (case change_directory e w (path_arg_of (strip line)) of
              (Inl x, w1) \<Rightarrow> Some (Uncaught x, w1)
            | (Inr result, w1) \<Rightarrow>
                Some (Continue [[LF] @ ''Agent:'' @ [LF] @ result @ [LF]], w1))"
    by (rule main_step_cd[OF nav])
  have rq: "\<exists>r w1. main_step e w line = Some (r, w1) \<and> requests w1 = requests w"
    using change_directory_requests[of e w "path_arg_of (strip line)"]
    unfolding eq by (auto split: prod.splits sum.splits)
  have one: "main_step e w line
            = Some (Continue [[LF] @ ''Agent:'' @ [LF] @ root_message @ [LF]],
                    w\<lparr>CURRENT_DIR := []\<rparr>)"
    if "\<forall>c\<in>set line. \<not> py_isspace c"
    unfolding eq using that
    by (simp add: strip_no_space path_arg_of_single_word change_directory_empty)
  show ?thesis
    using eq rq one by blast
qed

theorem cd_prefix_lines_are_navigation_witness:
  "main_step example_env example_world_docs ''cdrom''
     = Some (Continue [[LF] @ ''Agent:'' @ [LF] @ ''Current directory: / (workspace root)'' @ [LF]],
             example_world)
   \<and> main_step example_env example_world ''CD docs''
     = Some (Continue [[LF] @ ''Agent:'' @ [LF] @ ''Current directory: /docs'' @ [LF]],
             example_world_docs)"
proof -
  have a: "startswith (lower ''cdrom'') ''cd''" "startswith (lower ''CD docs'') ''cd''"
    by code_simp+
  have b: "\<forall>c\<in>set ''cdrom''. \<not> py_isspace c"
    by (simp add: py_isspace_def)
  have c: "path_arg_of (strip ''CD docs'') = ''docs''"
    by code_simp
  have d: "change_directory example_env example_world ''docs''
             = (Inr ''Current directory: /docs'', example_world_docs)"
    by code_simp
  from cd_prefix_lines_are_navigation[OF a(1), of example_env example_world_docs] b
  have m1: "main_step example_env example_world_docs ''cdrom''
      = Some (Continue [[LF] @ ''Agent:'' @ [LF] @ root_message @ [LF]],
              example_world_docs\<lparr>CURRENT_DIR := []\<rparr>)"
    by blast
  have w: "example_world_docs\<lparr>CURRENT_DIR := []\<rparr> = example_world"
    by (simp add: example_world_docs_def example_world_def)
  from cd_prefix_lines_are_navigation[OF a(2), of example_env example_world]
  have m2: "main_step example_env example_world ''CD docs'' =
           (case change_directory example_env example_world (path_arg_of (strip ''CD docs'')) of
              (Inl x, w1) \<Rightarrow> Some (Uncaught x, w1)
            | (Inr result, w1) \<Rightarrow>
                Some (Continue [[LF] @ ''Agent:'' @ [LF] @ result @ [LF]], w1))"
    by blast
  show ?thesis
    by (simp add: m1 w m2 c d root_message_def)
qed


subsection \<open>Dispatching tool calls\<close>














subsection \<open>Creating posts with the same title\<close>

lemma post_id_less_next_id: "r \<in> set db \<Longrightarrow> post_id r < next_id db"
  by (induction db) (auto simp: next_id_def)

lemma next_id_fresh: "next_id db \<notin> post_id ` set db"
  using post_id_less_next_id by fastforce

lemma create_post_sync_conflict:
  "\<exists>r\<in>set db. title r = new_title p \<Longrightarrow>
     create_post_sync db p = (Inl (HTTPException 400 ''Post already exists''), db)"
  by (cases "find (\<lambda>r. title r = new_title p) db")
     (auto simp: create_post_sync_def find_None_iff)

lemma create_post_sync_new:
  "\<forall>r\<in>set db. title r \<noteq> new_title p \<Longrightarrow>
     create_post_sync db p
       = (Inr \<lparr>post_id = next_id db, title = new_title p, content = new_content p\<rparr>,
          db @ [\<lparr>post_id = next_id db, title = new_title p, content = new_content p\<rparr>])"
  by (cases "find (\<lambda>r. title r = new_title p) db")
     (auto simp: create_post_sync_def add_commit_refresh_def Let_def find_Some_iff)

lemma create_post_async_new:
  "create_post_async db p
     = (Inr \<lparr>post_id = next_id db, title = new_title p, content = new_content p\<rparr>,
        db @ [\<lparr>post_id = next_id db, title = new_title p, content = new_content p\<rparr>])"
  by (simp add: create_post_async_def add_commit_refresh_def Let_def)

text \<open>
  C8. With \<open>r1\<close> the row a creation adds to the table \<open>db\<close> and \<open>r2\<close> the row a second
  creation with the same payload adds after it: the synchronous \<open>create_post\<close> fails with
  status 400 and leaves the table as it is whenever a row with the payload's title
  exists, so after a first success the second attempt fails and stores nothing; the
  asynchronous \<open>create_post\<close> checks nothing, both creations succeed and both rows are
  stored, with the same title and two different identifiers that no earlier row has.
\<close>

theorem create_post_same_title:
  assumes "r1 = \<lparr>post_id = next_id db, title = new_title p, content = new_content p\<rparr>"
    and "r2 = \<lparr>post_id = next_id (db @ [r1]), title = new_title p, content = new_content p\<rparr>"
  shows
    "((\<exists>r\<in>set db. title r = new_title p) \<longrightarrow>
        create_post_sync db p = (Inl (HTTPException 400 ''Post already exists''), db))
     \<and> ((\<forall>r\<in>set db. title r \<noteq> new_title p) \<longrightarrow>
        create_post_sync db p = (Inr r1, db @ [r1])
        \<and> create_post_sync (db @ [r1]) p
            = (Inl (HTTPException 400 ''Post already exists''), db @ [r1]))
     \<and> create_post_async db p = (Inr r1, db @ [r1])
     \<and> create_post_async (db @ [r1]) p = (Inr r2, db @ [r1, r2])
     \<and> post_id r1 \<noteq> post_id r2
     \<and> title r1 = title r2
     \<and> post_id r1 \<notin> post_id ` set db
     \<and> post_id r2 \<notin> post_id ` set db"
proof -
  have t1: "title r1 = new_title p" and i1: "post_id r1 = next_id db"
    and t2: "title r2 = new_title p" and i2: "post_id r2 = next_id (db @ [r1])"
    by (simp_all add: assms)
  have second: "create_post_sync (db @ [r1]) p
                  = (Inl (HTTPException 400 ''Post already exists''), db @ [r1])"
    by (rule create_post_sync_conflict) (simp add: t1)
  have lt: "post_id r1 < post_id r2"
    unfolding i2 by (rule post_id_less_next_id) simp
  have f1: "post_id r1 \<notin> post_id ` set db"
    unfolding i1 by (rule next_id_fresh)
  have f2: "post_id r2 \<notin> post_id ` set db"
    using next_id_fresh[of "db @ [r1]"] by (simp add: i2)
  have a1: "create_post_async db p = (Inr r1, db @ [r1])"
    by (simp add: create_post_async_new assms(1))
  have a2: "create_post_async (db @ [r1]) p = (Inr r2, db @ [r1, r2])"
    by (simp add: create_post_async_new assms(2))
  have s1: "\<forall>r\<in>set db. title r \<noteq> new_title p \<Longrightarrow> create_post_sync db p = (Inr r1, db @ [r1])"
    by (simp add: create_post_sync_new assms(1))
  show ?thesis
    using create_post_sync_conflict[of db p] s1 second a1 a2 lt f1 f2 t1 t2 by simp
qed

theorem create_post_same_title_witness:
  "create_post_sync [] \<lparr>new_title = ''Hello'', new_content = ''first''\<rparr>
     = (Inr \<lparr>post_id = 1, title = ''Hello'', content = ''first''\<rparr>,
        [\<lparr>post_id = 1, title = ''Hello'', content = ''first''\<rparr>])
   \<and> create_post_sync [\<lparr>post_id = 1, title = ''Hello'', content = ''first''\<rparr>]
        \<lparr>new_title = ''Hello'', new_content = ''first''\<rparr>
     = (Inl (HTTPException 400 ''Post already exists''),
        [\<lparr>post_id = 1, title = ''Hello'', content = ''first''\<rparr>])
   \<and> create_post_async [] \<lparr>new_title = ''Hello'', new_content = ''first''\<rparr>
     = (Inr \<lparr>post_id = 1, title = ''Hello'', content = ''first''\<rparr>,
        [\<lparr>post_id = 1, title = ''Hello'', content = ''first''\<rparr>])
   \<and> create_post_async [\<lparr>post_id = 1, title = ''Hello'', content = ''first''\<rparr>]
        \<lparr>new_title = ''Hello'', new_content = ''first''\<rparr>
     = (Inr \<lparr>post_id = 2, title = ''Hello'', content = ''first''\<rparr>,
        [\<lparr>post_id = 1, title = ''Hello'', content = ''first''\<rparr>,
         \<lparr>post_id = 2, title = ''Hello'', content = ''first''\<rparr>])"
proof -
  let ?p = "\<lparr>new_title = ''Hello'', new_content = ''first''\<rparr>"
  let ?r1 = "\<lparr>post_id = 1, title = ''Hello'', content = ''first''\<rparr>"
  let ?r2 = "\<lparr>post_id = 2, title = ''Hello'', content = ''first''\<rparr>"
  have e1: "?r1 = \<lparr>post_id = next_id [], title = new_title ?p, content = new_content ?p\<rparr>"
    by (simp add: next_id_def)
  have e2: "?r2 = \<lparr>post_id = next_id ([] @ [?r1]), title = new_title ?p,
                   content = new_content ?p\<rparr>"
    by (simp add: next_id_def)
  from create_post_same_title[OF e1 e2] show ?thesis
    by simp
qed

end
